theory Spec2Isabelle
  imports Complex_Main "HOL-Library.Log_Nat"
begin

section \<open>Python values used by the monitor\<close>

text \<open>
  The monitor stores prices as Python floats. A price is modelled by the real number the
  float stands for, and the sums and quotients of the indicators are taken exactly;
  infinities and NaN are outside the model. Where a property depends on how a float
  product rounds, the product is the one of the section on binary floating point. A
  function result that
  the source signals by raising is a value of \<open>py_error\<close>; \<open>None\<close> is the \<open>None\<close> of
  \<open>option\<close>.
\<close>

datatype py_error = ZeroDivisionError | IndexError | StatisticsError

type_synonym 'a py_result = "py_error + 'a"

text \<open>The slice \<^verbatim>\<open>xs[-n:]\<close> for \<open>n \<ge> 0\<close>: for \<open>n = 0\<close> it is \<^verbatim>\<open>xs[0:]\<close>, the whole list.\<close>

definition last_n :: "nat \<Rightarrow> 'a list \<Rightarrow> 'a list" where
  "last_n n xs = (if n = 0 then xs else drop (length xs - n) xs)"

text \<open>
  \<^verbatim>\<open>collections.deque(maxlen=n)\<close>: \<^verbatim>\<open>append\<close> adds on the right and, when the
  bound is exceeded, discards from the left.
\<close>

record 'a deque =
  maxlen :: nat
  items :: "'a list"

definition deque_new :: "nat \<Rightarrow> 'a deque" where
  "deque_new n = \<lparr>maxlen = n, items = []\<rparr>"

definition deque_append :: "'a deque \<Rightarrow> 'a \<Rightarrow> 'a deque" where
  "deque_append d x =
     (let ys = items d @ [x] in d\<lparr>items := drop (length ys - maxlen d) ys\<rparr>)"

section \<open>TechnicalAnalyzer\<close>

type_synonym instant = int

record technical_analyzer =
  prices :: "real deque"
  timestamps :: "instant deque"
  lookback_period :: nat

text \<open>\<^verbatim>\<open>__init__(self, lookback_period=20)\<close>\<close>

definition init_analyzer :: "nat \<Rightarrow> technical_analyzer" where
  "init_analyzer n =
     \<lparr>prices = deque_new n, timestamps = deque_new n, lookback_period = n\<rparr>"

definition default_analyzer :: technical_analyzer where
  "default_analyzer = init_analyzer 20"

text \<open>
  \<^verbatim>\<open>add_price(self, price, timestamp=None)\<close>; the caller of the model supplies the
  clock reading that replaces an absent timestamp.
\<close>

definition add_price :: "technical_analyzer \<Rightarrow> real \<Rightarrow> instant \<Rightarrow> technical_analyzer" where
  "add_price a price timestamp =
     a\<lparr>prices := deque_append (prices a) price,
       timestamps := deque_append (timestamps a) timestamp\<rparr>"

fun add_prices :: "technical_analyzer \<Rightarrow> (real \<times> instant) list \<Rightarrow> technical_analyzer" where
  "add_prices a [] = a"
| "add_prices a ((p, t) # obs) = add_prices (add_price a p t) obs"

text \<open>The states the constructor and \<open>add_price\<close> can produce.\<close>

definition wf_analyzer :: "technical_analyzer \<Rightarrow> bool" where
  "wf_analyzer a =
     (maxlen (prices a) = lookback_period a \<and> maxlen (timestamps a) = lookback_period a
      \<and> length (items (prices a)) \<le> lookback_period a
      \<and> length (items (timestamps a)) = length (items (prices a)))"

subsection \<open>Moving averages\<close>

text \<open>
  \<^verbatim>\<open>calculate_sma(self, period=None)\<close>. The quotient \<^verbatim>\<open>sum(...) / period\<close> raises
  \<^verbatim>\<open>ZeroDivisionError\<close> when \<open>period\<close> is 0.
\<close>

definition calculate_sma :: "technical_analyzer \<Rightarrow> nat option \<Rightarrow> real option py_result" where
  "calculate_sma a period_arg =
     (let ps = items (prices a);
          period = (case period_arg of
                      None \<Rightarrow> min (lookback_period a) (length ps)
                    | Some p \<Rightarrow> p)
      in if length ps < period then Inr None
         else if period = 0 then Inl ZeroDivisionError
         else Inr (Some (sum_list (last_n period ps) / real period)))"

fun ema_loop :: "real \<Rightarrow> real \<Rightarrow> real list \<Rightarrow> real" where
  "ema_loop multiplier ema [] = ema"
| "ema_loop multiplier ema (price # rest) =
     ema_loop multiplier ((price * multiplier) + (ema * (1 - multiplier))) rest"

text \<open>\<^verbatim>\<open>calculate_ema(self, period=12)\<close>; \<^verbatim>\<open>prices[0]\<close> raises on an empty slice.\<close>

definition calculate_ema :: "technical_analyzer \<Rightarrow> nat \<Rightarrow> real option py_result" where
  "calculate_ema a period =
     (let ps = items (prices a)
      in if length ps < period then Inr None
         else (case last_n period ps of
                 [] \<Rightarrow> Inl IndexError
               | p0 # rest \<Rightarrow> Inr (Some (ema_loop (2 / (real period + 1)) p0 rest))))"

subsection \<open>Relative strength index\<close>

text \<open>
  The loop of \<^verbatim>\<open>calculate_rsi\<close> over the indices \<^verbatim>\<open>range(len - period, len)\<close>, with
  its \<^verbatim>\<open>continue\<close> at index 0. Every index it reads is below the length, and
  \<open>i - 1\<close> is read only for \<open>i > 0\<close>.
\<close>

fun rsi_loop :: "real list \<Rightarrow> nat list \<Rightarrow> real list \<times> real list \<Rightarrow> real list \<times> real list" where
  "rsi_loop ps [] gl = gl"
| "rsi_loop ps (i # rest) (gains, losses) =
     (if i = 0 then rsi_loop ps rest (gains, losses)
      else if ps ! i > ps ! (i - 1)
        then rsi_loop ps rest (gains @ [ps ! i - ps ! (i - 1)], losses @ [0])
        else rsi_loop ps rest (gains @ [0], losses @ [ps ! (i - 1) - ps ! i]))"

definition rsi_gains_losses :: "real list \<Rightarrow> nat \<Rightarrow> real list \<times> real list" where
  "rsi_gains_losses ps period = rsi_loop ps [length ps - period ..< length ps] ([], [])"

text \<open>\<^verbatim>\<open>calculate_rsi(self, period=14)\<close>\<close>

definition calculate_rsi :: "technical_analyzer \<Rightarrow> nat \<Rightarrow> real option py_result" where
  "calculate_rsi a period =
     (let ps = items (prices a)
      in if length ps < period + 1 then Inr None
         else
           (let gains = fst (rsi_gains_losses ps period);
                losses = snd (rsi_gains_losses ps period)
            in if length gains < period \<or> length losses < period then Inr None
               else if period = 0 then Inl ZeroDivisionError
               else
                 (let avg_gain = sum_list (last_n period gains) / real period;
                      avg_loss = sum_list (last_n period losses) / real period
                  in if avg_loss = 0 then Inr (Some 100)
                     else
                       (let rs = avg_gain / avg_loss
                        in if 1 + rs = 0 then Inl ZeroDivisionError
                           else Inr (Some (100 - (100 / (1 + rs))))))))"

subsection \<open>Trend, levels, volatility, momentum\<close>

text \<open>
  The labels \<^verbatim>\<open>get_trend\<close> returns, in the order of the source: data insufficient,
  neutral, bullish, bullish reversal, bearish, bearish reversal.
\<close>

datatype trend = Insufficient | Neutral | Bullish | BullishReversal | Bearish | BearishReversal

text \<open>
  \<^verbatim>\<open>len(set(xs)) == 1\<close> counts the distinct values of \<open>xs\<close>. The slice has five
  entries, so the indices \<open>-1\<close>, \<open>-2\<close> and \<open>0\<close> are in range.
\<close>

definition trend_of_recent :: "real list \<Rightarrow> trend" where
  "trend_of_recent recent_prices =
     (if length (remdups recent_prices) = 1 then Neutral
      else if recent_prices ! (length recent_prices - 1) > recent_prices ! 0
        then (if recent_prices ! (length recent_prices - 1)
                   > recent_prices ! (length recent_prices - 2)
              then Bullish else BullishReversal)
        else (if recent_prices ! (length recent_prices - 1)
                   < recent_prices ! (length recent_prices - 2)
              then Bearish else BearishReversal))"

definition get_trend :: "technical_analyzer \<Rightarrow> trend" where
  "get_trend a =
     (if length (items (prices a)) < 5 then Insufficient
      else trend_of_recent (last_n 5 (items (prices a))))"

record sup_res =
  support :: "real option"
  resistance :: "real option"

text \<open>
  \<^verbatim>\<open>analyze_support_resistance(self, window_size=8)\<close>; \<^verbatim>\<open>min\<close> and \<^verbatim>\<open>max\<close> are
  taken of at least five prices.
\<close>

definition analyze_support_resistance :: "technical_analyzer \<Rightarrow> nat \<Rightarrow> sup_res" where
  "analyze_support_resistance a window_size =
     (let ps = items (prices a)
      in if length ps < 5 then \<lparr>support = None, resistance = None\<rparr>
         else
           (let recent_prices = (if length ps \<ge> window_size then last_n window_size ps else ps)
            in \<lparr>support = Some (Min (set recent_prices)),
                resistance = Some (Max (set recent_prices))\<rparr>))"

text \<open>\<^verbatim>\<open>statistics.stdev\<close>: the sample standard deviation; fewer than two points raise.\<close>

definition stdev :: "real list \<Rightarrow> real py_result" where
  "stdev xs =
     (if length xs < 2 then Inl StatisticsError
      else
        (let mean = sum_list xs / real (length xs)
         in Inr (sqrt (sum_list (map (\<lambda>x. (x - mean)\<^sup>2) xs) / real (length xs - 1)))))"

definition get_volatility :: "technical_analyzer \<Rightarrow> nat \<Rightarrow> real option py_result" where
  "get_volatility a period =
     (let ps = items (prices a)
      in if length ps < period then Inr None
         else
           (let recent_prices = last_n period ps
            in if length (remdups recent_prices) = 1 then Inr (Some 0)
               else (case stdev recent_prices of
                       Inl e \<Rightarrow> Inl e
                     | Inr v \<Rightarrow> Inr (Some v))))"

text \<open>
  \<^verbatim>\<open>get_momentum(self, period=5)\<close>: \<^verbatim>\<open>prices[-period]\<close> is \<^verbatim>\<open>prices[0]\<close> for
  \<open>period = 0\<close>; both index reads raise on an empty window, and the quotient raises when
  the old price is 0.
\<close>

definition get_momentum :: "technical_analyzer \<Rightarrow> nat \<Rightarrow> real option py_result" where
  "get_momentum a period =
     (let ps = items (prices a)
      in if length ps < period then Inr None
         else if ps = [] then Inl IndexError
         else
           (let old_price = ps ! (if period = 0 then 0 else length ps - period);
                current_price = ps ! (length ps - 1)
            in if old_price = 0 then Inl ZeroDivisionError
               else Inr (Some (((current_price - old_price) / old_price) * 100))))"

section \<open>K-line analysis\<close>

text \<open>The slice \<^verbatim>\<open>xs[lo:hi]\<close> for indices \<open>0 \<le> lo\<close>, \<open>0 \<le> hi\<close>.\<close>

definition py_slice :: "nat \<Rightarrow> nat \<Rightarrow> 'a list \<Rightarrow> 'a list" where
  "py_slice lo hi xs = take (hi - lo) (drop lo xs)"

text \<open>\<^verbatim>\<open>closes[max(0, i-5):i+1]\<close>; on naturals \<open>i - 5\<close> is \<^verbatim>\<open>max(0, i-5)\<close>.\<close>

definition trailing_window :: "real list \<Rightarrow> nat \<Rightarrow> real list" where
  "trailing_window closes i = py_slice (i - 5) (i + 1) closes"

text \<open>
  \<^verbatim>\<open>sorted([max(closes[max(0, i-5):i+1]) for i in range(len(closes))], reverse=True)[:5]\<close>
  and its counterpart with \<^verbatim>\<open>min\<close> in ascending order.
\<close>

definition recent_highs :: "real list \<Rightarrow> real list" where
  "recent_highs closes =
     take 5 (rev (sort (map (\<lambda>i. Max (set (trailing_window closes i))) [0 ..< length closes])))"

definition recent_lows :: "real list \<Rightarrow> real list" where
  "recent_lows closes =
     take 5 (sort (map (\<lambda>i. Min (set (trailing_window closes i))) [0 ..< length closes]))"

definition kline_resistance_level :: "real list \<Rightarrow> real option" where
  "kline_resistance_level closes =
     (if recent_highs closes \<noteq> [] then Some (recent_highs closes ! 0) else None)"

definition kline_support_level :: "real list \<Rightarrow> real option" where
  "kline_support_level closes =
     (if recent_lows closes \<noteq> [] then Some (recent_lows closes ! 0) else None)"

text \<open>
  The two labels of the K-line trend: bullish and bearish. The trend is computed for at
  least two closes only, so the indices \<open>-1\<close> and \<open>0\<close> of the slice are in range.
\<close>

datatype kline_trend = KBullish | KBearish

definition kline_trend_of :: "real list \<Rightarrow> kline_trend" where
  "kline_trend_of closes =
     (let recent_closes = (if length closes \<ge> 10 then last_n 10 closes else closes)
      in if recent_closes ! (length recent_closes - 1) > recent_closes ! 0
         then KBullish else KBearish)"

text \<open>
  The analysis string carries the trend, the volatility and, when they are truthy
  (\<^verbatim>\<open>if support:\<close>), the two levels. The other three results are the fixed strings
  for an empty batch, a batch of one close, and a caught exception.
\<close>

record kline_summary =
  k_trend :: kline_trend
  k_volatility :: real
  k_support :: "real option"
  k_resistance :: "real option"

datatype kline_result =
    KlineNoData
  | KlineInsufficient
  | KlineFailed
  | KlineAnalysis kline_summary

definition truthy :: "real option \<Rightarrow> bool" where
  "truthy v = (case v of None \<Rightarrow> False | Some x \<Rightarrow> x \<noteq> 0)"

definition shown :: "real option \<Rightarrow> real option" where
  "shown v = (if truthy v then v else None)"

text \<open>
  \<^verbatim>\<open>get_kline_analysis\<close> from the closes of the fetched candles on; \<open>None\<close> stands for a
  request or a parse that raised. \<^verbatim>\<open>overall_change\<close> divides by the first close, and
  the \<^verbatim>\<open>except Exception\<close> of the function turns that error into the failure result.
\<close>

definition get_kline_analysis :: "real list option \<Rightarrow> kline_result" where
  "get_kline_analysis fetched =
     (case fetched of
        None \<Rightarrow> KlineFailed
      | Some closes \<Rightarrow>
          if closes = [] then KlineNoData
          else if length closes < 2 then KlineInsufficient
          else if closes ! 0 = 0 then KlineFailed
          else (case stdev closes of
                  Inl e \<Rightarrow> KlineFailed
                | Inr volatility \<Rightarrow>
                    KlineAnalysis
                      \<lparr>k_trend = kline_trend_of closes,
                       k_volatility = volatility,
                       k_support = shown (kline_support_level closes),
                       k_resistance = shown (kline_resistance_level closes)\<rparr>))"

text \<open>
  The support and resistance rule in the words of the specification: for each index the
  extremum of the up to six points ending there, the extrema sorted, the first one taken.
\<close>

definition spec_window :: "real list \<Rightarrow> nat \<Rightarrow> real list" where
  "spec_window closes i = drop (i + 1 - 6) (take (i + 1) closes)"

definition spec_resistance :: "real list \<Rightarrow> real" where
  "spec_resistance closes =
     hd (rev (sort (map (\<lambda>i. Max (set (spec_window closes i))) [0 ..< length closes])))"

definition spec_support :: "real list \<Rightarrow> real" where
  "spec_support closes =
     hd (sort (map (\<lambda>i. Min (set (spec_window closes i))) [0 ..< length closes]))"

section \<open>Interpretation\<close>

text \<open>
  One constructor for each message template of \<^verbatim>\<open>generate_interpretation\<close>, with the
  values the template prints; the rendering of a number as text is not modelled.
\<close>

datatype direction = Up | Down

datatype statement =
    ShortTermRising trend
  | ShortTermFalling trend
  | PriceAboveSMA real
  | PriceBelowSMA real
  | RSIOverbought real
  | RSIOversold real
  | RSINeutral real
  | NearSupport real
  | NearResistance real
  | BetweenLevels real real
  | MomentumStrong real direction
  | MomentumWeak real
  | KlineTrendLine kline_trend
  | IndicatorsInsufficient

text \<open>\<^verbatim>\<open>int(x)\<close> on a float truncates towards zero.\<close>

definition py_int :: "real \<Rightarrow> int" where
  "py_int x = (if x < 0 then \<lceil>x\<rceil> else \<lfloor>x\<rfloor>)"

definition trend_rule :: "trend \<Rightarrow> statement list" where
  "trend_rule t =
     (if t \<noteq> Insufficient then
        (if t = Bullish \<or> t = BullishReversal then [ShortTermRising t]
         else if t = Bearish \<or> t = BearishReversal then [ShortTermFalling t]
         else [])
      else [])"

definition sma_rule :: "real \<Rightarrow> real option \<Rightarrow> statement list" where
  "sma_rule current_price sma =
     (case sma of
        None \<Rightarrow> []
      | Some v \<Rightarrow>
          if v \<noteq> 0 then
            (if current_price > v
             then [PriceAboveSMA (real_of_int (py_int (v * 1000000)) / 1000000)]
             else [PriceBelowSMA (real_of_int (py_int (v * 1000000)) / 1000000)])
          else [])"

text \<open>The guard \<^verbatim>\<open>if rsi:\<close> is Python truthiness: \<^verbatim>\<open>None\<close> and zero both fail it.\<close>

definition rsi_rule :: "real option \<Rightarrow> statement list" where
  "rsi_rule rsi =
     (case rsi of
        None \<Rightarrow> []
      | Some v \<Rightarrow>
          if v \<noteq> 0 then
            (if v > 70 then [RSIOverbought v]
             else if v < 30 then [RSIOversold v]
             else [RSINeutral v])
          else [])"

definition levels_rule :: "real \<Rightarrow> sup_res \<Rightarrow> statement list" where
  "levels_rule current_price sr =
     (case (support sr, resistance sr) of
        (Some s, Some r) \<Rightarrow>
          if s \<noteq> 0 \<and> r \<noteq> 0 then
            (if current_price \<le> s * 1.001 then [NearSupport s]
             else if current_price \<ge> r * 0.999 then [NearResistance r]
             else [BetweenLevels s r])
          else []
      | _ \<Rightarrow> [])"

definition momentum_rule :: "real option \<Rightarrow> statement list" where
  "momentum_rule momentum =
     (case momentum of
        None \<Rightarrow> []
      | Some m \<Rightarrow>
          if m \<noteq> 0 then
            (if \<bar>m\<bar> > 5 then [MomentumStrong m (if m > 0 then Up else Down)]
             else if \<bar>m\<bar> < 1 then [MomentumWeak m]
             else [])
          else [])"

text \<open>\<open>None\<close> is the placeholder the caller passes when no K-line trend was parsed.\<close>

definition kline_rule :: "kline_trend option \<Rightarrow> statement list" where
  "kline_rule kt = (case kt of None \<Rightarrow> [] | Some t \<Rightarrow> [KlineTrendLine t])"

text \<open>
  \<^verbatim>\<open>generate_interpretation\<close>: the statements in the order they are appended; the
  result string joins them after a fixed prefix. The volatility and the three K-line
  texts besides the trend are parameters the body never reads.
\<close>

definition generate_interpretation ::
  "real \<Rightarrow> trend \<Rightarrow> real option \<Rightarrow> real option \<Rightarrow> sup_res \<Rightarrow> real option \<Rightarrow> real option
     \<Rightarrow> kline_trend option \<Rightarrow> real option \<Rightarrow> real option \<Rightarrow> real option \<Rightarrow> statement list" where
  "generate_interpretation current_price trend sma rsi sr volatility momentum
       kline_trend kline_volatility kline_support kline_resistance =
     (let interpretations =
            trend_rule trend @ sma_rule current_price sma @ rsi_rule rsi
            @ levels_rule current_price sr @ momentum_rule momentum @ kline_rule kline_trend
      in if interpretations = [] then [IndicatorsInsufficient] else interpretations)"

section \<open>Ticker fetch, delivery and the monitor loop\<close>

text \<open>
  What the ticker request can come back with: one of the exceptions
  \<^verbatim>\<open>get_hsk_price\<close> catches, a JSON value that is not a list, or a list of tickers.
  A field of a ticker is \<open>None\<close> when its key is missing or \<^verbatim>\<open>float\<close> rejects it,
  which raises inside the \<^verbatim>\<open>try\<close>.
\<close>

record raw_ticker =
  t_last :: "real option"
  t_change_percentage :: "real option"
  t_lowest_ask :: "real option"
  t_highest_bid :: "real option"
  t_high_24h :: "real option"
  t_low_24h :: "real option"
  t_base_volume :: "real option"
  t_quote_volume :: "real option"

record price_data =
  pd_price :: real
  pd_change_percentage :: real
  pd_lowest_ask :: real
  pd_highest_bid :: real
  pd_high_24h :: real
  pd_low_24h :: real
  pd_base_volume :: real
  pd_quote_volume :: real

datatype ticker_response =
    HTTPError
  | Timeout
  | ConnectionError
  | InvalidJSON
  | OtherException
  | JsonNotList
  | JsonList "raw_ticker list"

definition parse_ticker :: "raw_ticker \<Rightarrow> price_data option" where
  "parse_ticker t =
     (case (t_last t, t_change_percentage t, t_lowest_ask t, t_highest_bid t,
            t_high_24h t, t_low_24h t, t_base_volume t, t_quote_volume t) of
        (Some a, Some b, Some c, Some d, Some e, Some f, Some g, Some h) \<Rightarrow>
          Some \<lparr>pd_price = a, pd_change_percentage = b, pd_lowest_ask = c,
                pd_highest_bid = d, pd_high_24h = e, pd_low_24h = f,
                pd_base_volume = g, pd_quote_volume = h\<rparr>
      | _ \<Rightarrow> None)"

definition get_hsk_price :: "ticker_response \<Rightarrow> price_data option" where
  "get_hsk_price response =
     (case response of
        JsonList (ticker # rest) \<Rightarrow> parse_ticker ticker
      | JsonList [] \<Rightarrow> None
      | JsonNotList \<Rightarrow> None
      | HTTPError \<Rightarrow> None
      | Timeout \<Rightarrow> None
      | ConnectionError \<Rightarrow> None
      | InvalidJSON \<Rightarrow> None
      | OtherException \<Rightarrow> None)"

definition bind_result :: "'a py_result \<Rightarrow> ('a \<Rightarrow> 'b py_result) \<Rightarrow> 'b py_result" where
  "bind_result r f = (case r of Inl e \<Rightarrow> Inl e | Inr v \<Rightarrow> f v)"

text \<open>
  The part of \<^verbatim>\<open>send_to_lark_webhook\<close> that reads the analyzer and builds the
  interpretation line, with the default arguments of the indicator calls. An indicator
  that raises ends the function in its \<^verbatim>\<open>except Exception\<close>.
\<close>

definition interpretation_line ::
  "price_data \<Rightarrow> technical_analyzer \<Rightarrow> real list option \<Rightarrow> statement list py_result" where
  "interpretation_line d a fetched =
     bind_result (calculate_sma a None) (\<lambda>sma.
     bind_result (calculate_ema a 12) (\<lambda>ema.
     bind_result (calculate_rsi a 14) (\<lambda>rsi.
     bind_result (get_volatility a 5) (\<lambda>volatility.
     bind_result (get_momentum a 5) (\<lambda>momentum.
       (case get_kline_analysis fetched of
          KlineAnalysis k \<Rightarrow>
            Inr (generate_interpretation (pd_price d) (get_trend a) sma rsi
                   (analyze_support_resistance a 8) volatility momentum
                   (Some (k_trend k)) (Some (k_volatility k)) (k_support k) (k_resistance k))
        | _ \<Rightarrow>
            Inr (generate_interpretation (pd_price d) (get_trend a) sma rsi
                   (analyze_support_resistance a 8) volatility momentum
                   None None None None)))))))"

datatype cycle_outcome = FetchFailed | SendFailed | Sent "statement list"

text \<open>\<open>webhook_ok\<close> says whether the POST to the webhook went through.\<close>

definition send_to_lark_webhook ::
  "price_data \<Rightarrow> technical_analyzer \<Rightarrow> real list option \<Rightarrow> bool \<Rightarrow> cycle_outcome" where
  "send_to_lark_webhook d a fetched webhook_ok =
     (case interpretation_line d a fetched of
        Inl e \<Rightarrow> SendFailed
      | Inr interpretation \<Rightarrow> if webhook_ok then Sent interpretation else SendFailed)"

record cycle_input =
  ci_ticker :: ticker_response
  ci_now :: instant
  ci_klines :: "real list option"
  ci_webhook_ok :: bool

text \<open>
  One pass of the \<^verbatim>\<open>while True\<close> loop of \<^verbatim>\<open>main\<close>: the analyzer after the pass and
  what the pass did. The loop itself never returns; \<open>main_loop\<close> is its state after a
  finite number of passes.
\<close>

definition main_cycle :: "technical_analyzer \<Rightarrow> cycle_input \<Rightarrow> technical_analyzer \<times> cycle_outcome" where
  "main_cycle tech_analyzer i =
     (case get_hsk_price (ci_ticker i) of
        None \<Rightarrow> (tech_analyzer, FetchFailed)
      | Some current_data \<Rightarrow>
          (let a' = add_price tech_analyzer (pd_price current_data) (ci_now i)
           in (a', send_to_lark_webhook current_data a' (ci_klines i) (ci_webhook_ok i))))"

fun main_loop :: "technical_analyzer \<Rightarrow> cycle_input list \<Rightarrow> technical_analyzer" where
  "main_loop a [] = a"
| "main_loop a (i # rest) = main_loop (fst (main_cycle a i)) rest"

text \<open>
  A call of an indicator method on the analyzer object: the value it returns (or the
  exception it raises) and the object after the call. No indicator method of the class
  assigns to a field or calls a mutating method of a deque.
\<close>

datatype indicator_call =
    CallSMA "nat option"
  | CallEMA nat
  | CallRSI nat
  | CallTrend
  | CallSupportResistance nat
  | CallVolatility nat
  | CallMomentum nat

datatype indicator_value =
    NumberValue "real option py_result"
  | TrendValue trend
  | LevelsValue sup_res

fun call_indicator :: "indicator_call \<Rightarrow> technical_analyzer \<Rightarrow> indicator_value \<times> technical_analyzer" where
  "call_indicator (CallSMA period) a = (NumberValue (calculate_sma a period), a)"
| "call_indicator (CallEMA period) a = (NumberValue (calculate_ema a period), a)"
| "call_indicator (CallRSI period) a = (NumberValue (calculate_rsi a period), a)"
| "call_indicator CallTrend a = (TrendValue (get_trend a), a)"
| "call_indicator (CallSupportResistance window_size) a =
     (LevelsValue (analyze_support_resistance a window_size), a)"
| "call_indicator (CallVolatility period) a = (NumberValue (get_volatility a period), a)"
| "call_indicator (CallMomentum period) a = (NumberValue (get_momentum a period), a)"

section \<open>Binary floating point\<close>

text \<open>
  The float of Python is the IEEE 754 binary64 format. A finite float is \<open>m * 2 ^ e\<close> for
  integers \<open>m\<close> and \<open>e\<close> with \<open>\<bar>m\<bar> < 2 ^ 53\<close> and \<open>- 1074 \<le> e\<close>, and below \<open>2 ^ 1024\<close> in
  magnitude. The product of two finite floats is their exact product rounded to the
  nearest such value, a tie going to the even mantissa: the mantissa keeps 53 bits, or
  fewer when the exponent would fall below \<open>- 1074\<close>. A rounded value of magnitude
  \<open>2 ^ 1024\<close> or more is an infinity.
\<close>

datatype double = Double (mantissa: int) (exponent: int)

text \<open>The real number a float stands for.\<close>

definition double_value :: "double \<Rightarrow> real" where
  "double_value d = real_of_int (mantissa d) * 2 powi exponent d"

datatype float_product = Finite double | Infinite

text \<open>\<open>m / 2 ^ k\<close> for \<open>m \<ge> 0\<close>, rounded to the nearest integer, ties to even.\<close>

definition round_half_even :: "int \<Rightarrow> nat \<Rightarrow> int" where
  "round_half_even m k =
     (let q = m div 2 ^ k; r = m mod 2 ^ k
      in if 2 * r > 2 ^ k \<or> (2 * r = 2 ^ k \<and> odd q) then q + 1 else q)"

text \<open>The float product \<^verbatim>\<open>x * y\<close> of two finite floats.\<close>

definition double_mul :: "double \<Rightarrow> double \<Rightarrow> float_product" where
  "double_mul x y =
     (let m = mantissa x * mantissa y;
          e = exponent x + exponent y;
          k = nat (max (bitlen \<bar>m\<bar> - 53) (- 1074 - e));
          q = round_half_even \<bar>m\<bar> k
      in if real_of_int q * 2 powi (e + int k) \<ge> 2 ^ 1024 then Infinite
         else Finite (Double (sgn m * q) (e + int k)))"

section \<open>Sample windows\<close>

text \<open>
  Two windows the monitor reaches from its initial analyzer in fifteen passes: fifteen
  rising prices and fifteen falling prices.
\<close>

definition rising_window :: technical_analyzer where
  "rising_window =
     add_prices default_analyzer
       [(1, 1), (2, 2), (3, 3), (4, 4), (5, 5), (6, 6), (7, 7), (8, 8), (9, 9), (10, 10),
        (11, 11), (12, 12), (13, 13), (14, 14), (15, 15)]"

definition falling_window :: technical_analyzer where
  "falling_window =
     add_prices default_analyzer
       [(15, 1), (14, 2), (13, 3), (12, 4), (11, 5), (10, 6), (9, 7), (8, 8), (7, 9), (6, 10),
        (5, 11), (4, 12), (3, 13), (2, 14), (1, 15)]"

text \<open>Five prices that end in a pull-back, and the same prices doubled.\<close>

definition zigzag_window :: technical_analyzer where
  "zigzag_window = add_prices default_analyzer [(1, 1), (3, 2), (2, 3), (5, 4), (4, 5)]"

definition doubled_zigzag_window :: technical_analyzer where
  "doubled_zigzag_window =
     add_prices default_analyzer [(2, 1), (6, 2), (4, 3), (10, 4), (8, 5)]"

text \<open>
  The rising prices again, in an analyzer of capacity 30 and observed at other instants.
\<close>

definition rising_window_later :: technical_analyzer where
  "rising_window_later =
     add_prices (init_analyzer 30)
       [(1, 101), (2, 102), (3, 103), (4, 104), (5, 105), (6, 106), (7, 107), (8, 108),
        (9, 109), (10, 110), (11, 111), (12, 112), (13, 113), (14, 114), (15, 115)]"

text \<open>
  Four prices of 1.7 followed by the next float above 1.7, and the window of their float
  products with 0.6.
\<close>

definition near_tie_window :: technical_analyzer where
  "near_tie_window =
     add_prices default_analyzer
       [(double_value (Double 7656119366529843 (- 52)), 1),
        (double_value (Double 7656119366529843 (- 52)), 2),
        (double_value (Double 7656119366529843 (- 52)), 3),
        (double_value (Double 7656119366529843 (- 52)), 4),
        (double_value (Double 7656119366529844 (- 52)), 5)]"

definition scaled_near_tie_window :: technical_analyzer where
  "scaled_near_tie_window =
     add_prices default_analyzer
       [(double_value (Double 4593671619917906 (- 52)), 1),
        (double_value (Double 4593671619917906 (- 52)), 2),
        (double_value (Double 4593671619917906 (- 52)), 3),
        (double_value (Double 4593671619917906 (- 52)), 4),
        (double_value (Double 4593671619917906 (- 52)), 5)]"

section \<open>Auxiliary notions\<close>

text \<open>The lists that \<open>recent_highs\<close> and \<open>recent_lows\<close> sort.\<close>

definition window_maxima :: "real list \<Rightarrow> real list" where
  "window_maxima closes = map (\<lambda>i. Max (set (trailing_window closes i))) [0 ..< length closes]"

definition window_minima :: "real list \<Rightarrow> real list" where
  "window_minima closes = map (\<lambda>i. Min (set (trailing_window closes i))) [0 ..< length closes]"

section \<open>The price window\<close>

lemma deque_append_maxlen: "maxlen (deque_append d x) = maxlen d"
  by (simp add: deque_append_def Let_def)

lemma deque_append_length: "length (items (deque_append d x)) \<le> maxlen d"
  by (simp add: deque_append_def Let_def)

lemma deque_append_length_eq:
  "length (items (deque_append d x)) = min (maxlen d) (Suc (length (items d)))"
  by (simp add: deque_append_def Let_def)

lemma init_analyzer_wf: "wf_analyzer (init_analyzer n)"
  by (simp add: wf_analyzer_def init_analyzer_def deque_new_def)

lemma add_price_wf: "wf_analyzer a \<Longrightarrow> wf_analyzer (add_price a p t)"
  by (simp add: wf_analyzer_def add_price_def deque_append_maxlen deque_append_length_eq)

lemma add_prices_wf: "wf_analyzer a \<Longrightarrow> wf_analyzer (add_prices a obs)"
  by (induction a obs rule: add_prices.induct) (simp_all add: add_price_wf)

lemma add_price_lookback: "lookback_period (add_price a p t) = lookback_period a"
  by (simp add: add_price_def)

lemma add_prices_lookback: "lookback_period (add_prices a obs) = lookback_period a"
  by (induction a obs rule: add_prices.induct) (simp_all add: add_price_lookback)

lemma add_price_items:
  "items (prices (add_price a p t))
     = drop (Suc (length (items (prices a))) - maxlen (prices a)) (items (prices a) @ [p])"
  by (simp add: add_price_def deque_append_def Let_def)

lemma drop_drop_append:
  "j \<le> length zs \<Longrightarrow> drop k (drop j zs @ ws) = drop (j + k) (zs @ ws)"
  by (simp add: add.commute)

lemma add_prices_items:
  "wf_analyzer a \<Longrightarrow>
   items (prices (add_prices a obs))
     = drop (length (items (prices a)) + length obs - lookback_period a)
         (items (prices a) @ map fst obs)"
proof (induction a obs rule: add_prices.induct)
  case (1 a)
  then show ?case by (simp add: wf_analyzer_def)
next
  case (2 a p t obs)
  let ?xs = "items (prices a)" and ?n = "lookback_period a"
  let ?j = "Suc (length ?xs) - ?n"
  have wf': "wf_analyzer (add_price a p t)" using "2.prems" by (rule add_price_wf)
  have m: "maxlen (prices a) = ?n" and le: "length ?xs \<le> ?n"
    using "2.prems" by (simp_all add: wf_analyzer_def)
  have it: "items (prices (add_price a p t)) = drop ?j (?xs @ [p])"
    by (simp add: add_price_items m)
  have len: "length (drop ?j (?xs @ [p])) + length obs - ?n + ?j
               = length ?xs + Suc (length obs) - ?n"
    using le by auto
  have "items (prices (add_prices (add_price a p t) obs))
          = drop (length (drop ?j (?xs @ [p])) + length obs - ?n)
              (drop ?j (?xs @ [p]) @ map fst obs)"
    using "2.IH"[OF wf'] by (simp only: it add_price_lookback)
  also have "\<dots> = drop (?j + (length (drop ?j (?xs @ [p])) + length obs - ?n))
                     ((?xs @ [p]) @ map fst obs)"
    by (rule drop_drop_append) simp
  also have "\<dots> = drop (length ?xs + Suc (length obs) - ?n) (?xs @ p # map fst obs)"
    using len by (simp add: add.commute)
  finally show ?case by simp
qed

text \<open>
  Claim C7. Whatever observations are appended to a fresh analyzer of capacity \<open>n\<close>, the
  window holds at most \<open>n\<close> prices, namely the last \<open>n\<close> appended, in the order of
  their insertion. An append to a window that is full and has an oldest price drops
  that price, keeps the others in order and puts the new price last.
\<close>

theorem price_window_invariant:
  "length (items (prices (add_prices (init_analyzer n) obs))) \<le> n
   \<and> items (prices (add_prices (init_analyzer n) obs)) = drop (length obs - n) (map fst obs)
   \<and> (wf_analyzer a \<and> items (prices a) \<noteq> [] \<and> length (items (prices a)) = lookback_period a
        \<longrightarrow> items (prices (add_price a p t)) = tl (items (prices a)) @ [p])"
proof (intro conjI impI)
  show "length (items (prices (add_prices (init_analyzer n) obs))) \<le> n"
    using add_prices_wf[OF init_analyzer_wf, of n obs]
    by (simp add: wf_analyzer_def add_prices_lookback init_analyzer_def)
  show "items (prices (add_prices (init_analyzer n) obs)) = drop (length obs - n) (map fst obs)"
    using add_prices_items[OF init_analyzer_wf, of n obs]
    by (simp add: init_analyzer_def deque_new_def)
next
  assume h: "wf_analyzer a \<and> items (prices a) \<noteq> [] \<and> length (items (prices a)) = lookback_period a"
  then have "maxlen (prices a) = length (items (prices a))"
    by (simp add: wf_analyzer_def)
  with h show "items (prices (add_price a p t)) = tl (items (prices a)) @ [p]"
    by (cases "items (prices a)") (simp_all add: add_price_items)
qed

theorem price_window_invariant_witness:
  "wf_analyzer (add_prices (init_analyzer 2) [(1, 10), (2, 20)])
   \<and> items (prices (add_prices (init_analyzer 2) [(1, 10), (2, 20)])) \<noteq> []
   \<and> length (items (prices (add_prices (init_analyzer 2) [(1, 10), (2, 20)])))
       = lookback_period (add_prices (init_analyzer 2) [(1, 10), (2, 20)])
   \<and> items (prices (add_price (add_prices (init_analyzer 2) [(1, 10), (2, 20)]) 3 30)) = [2, 3]
   \<and> items (prices (add_prices (init_analyzer 2) [(1, 10), (2, 20), (3, 30)])) = [2, 3]"
  using price_window_invariant [of 2 "[(1, 10), (2, 20), (3, 30)]"
          "add_prices (init_analyzer 2) [(1, 10), (2, 20)]" 3 30]
  by (simp add: wf_analyzer_def init_analyzer_def deque_new_def add_price_def deque_append_def)

section \<open>The history the RSI needs\<close>

lemma rsi_loop_lengths:
  "0 \<notin> set idx \<Longrightarrow>
   length (fst (rsi_loop ps idx (g, l))) = length g + length idx
   \<and> length (snd (rsi_loop ps idx (g, l))) = length l + length idx"
  by (induction idx arbitrary: g l) auto

lemma rsi_loop_nonneg:
  "list_all (\<lambda>x. 0 \<le> x) g \<Longrightarrow> list_all (\<lambda>x. 0 \<le> x) l \<Longrightarrow>
   list_all (\<lambda>x. 0 \<le> x) (fst (rsi_loop ps idx (g, l)))
   \<and> list_all (\<lambda>x. 0 \<le> x) (snd (rsi_loop ps idx (g, l)))"
proof (induction idx arbitrary: g l)
  case Nil
  then show ?case by simp
next
  case (Cons i idx)
  have up: "ps ! (i - 1) < ps ! i \<Longrightarrow> ?case"
  proof -
    assume lt: "ps ! (i - 1) < ps ! i"
    have "list_all (\<lambda>x. 0 \<le> x) (g @ [ps ! i - ps ! (i - 1)])"
      using Cons.prems(1) lt by simp
    moreover have "list_all (\<lambda>x. 0 \<le> x) (l @ [0])"
      using Cons.prems(2) by simp
    ultimately have "list_all (\<lambda>x. 0 \<le> x) (fst (rsi_loop ps idx (g @ [ps ! i - ps ! (i - 1)], l @ [0])))
      \<and> list_all (\<lambda>x. 0 \<le> x) (snd (rsi_loop ps idx (g @ [ps ! i - ps ! (i - 1)], l @ [0])))"
      by (rule Cons.IH)
    moreover have "list_all (\<lambda>x. 0 \<le> x) (fst (rsi_loop ps idx (g, l)))
      \<and> list_all (\<lambda>x. 0 \<le> x) (snd (rsi_loop ps idx (g, l)))"
      using Cons.prems by (rule Cons.IH)
    ultimately show ?case using lt by (simp only: rsi_loop.simps split: if_split) blast
  qed
  have down: "\<not> ps ! (i - 1) < ps ! i \<Longrightarrow> ?case"
  proof -
    assume ge: "\<not> ps ! (i - 1) < ps ! i"
    have "list_all (\<lambda>x. 0 \<le> x) (g @ [0])"
      using Cons.prems(1) by simp
    moreover have "list_all (\<lambda>x. 0 \<le> x) (l @ [ps ! (i - 1) - ps ! i])"
      using Cons.prems(2) ge by simp
    ultimately have "list_all (\<lambda>x. 0 \<le> x) (fst (rsi_loop ps idx (g @ [0], l @ [ps ! (i - 1) - ps ! i])))
      \<and> list_all (\<lambda>x. 0 \<le> x) (snd (rsi_loop ps idx (g @ [0], l @ [ps ! (i - 1) - ps ! i])))"
      by (rule Cons.IH)
    moreover have "list_all (\<lambda>x. 0 \<le> x) (fst (rsi_loop ps idx (g, l)))
      \<and> list_all (\<lambda>x. 0 \<le> x) (snd (rsi_loop ps idx (g, l)))"
      using Cons.prems by (rule Cons.IH)
    ultimately show ?case using ge by (simp only: rsi_loop.simps split: if_split) blast
  qed
  from up down show ?case by blast
qed

lemma rsi_gains_losses_lengths:
  "period + 1 \<le> length ps \<Longrightarrow>
   length (fst (rsi_gains_losses ps period)) = period
   \<and> length (snd (rsi_gains_losses ps period)) = period"
  using rsi_loop_lengths[of "[length ps - period ..< length ps]" ps "[]" "[]"]
  by (simp add: rsi_gains_losses_def)

lemma sum_list_last_n_nonneg:
  assumes "list_all (\<lambda>x. (0::real) \<le> x) xs"
  shows "0 \<le> sum_list (last_n n xs)"
proof (rule sum_list_nonneg)
  fix x assume a: "x \<in> set (last_n n xs)"
  then have "x \<in> set xs" by (auto simp: last_n_def split: if_splits dest: in_set_dropD)
  with assms show "0 \<le> x" by (simp add: list_all_iff)
qed

lemma rsi_gains_losses_nonneg:
  "0 \<le> sum_list (last_n n (fst (rsi_gains_losses ps period)))
   \<and> 0 \<le> sum_list (last_n n (snd (rsi_gains_losses ps period)))"
proof -
  have "list_all (\<lambda>x. 0 \<le> x) (fst (rsi_loop ps [length ps - period ..< length ps] ([], [])))
      \<and> list_all (\<lambda>x. 0 \<le> x) (snd (rsi_loop ps [length ps - period ..< length ps] ([], [])))"
    by (rule rsi_loop_nonneg) simp_all
  then show ?thesis
    unfolding rsi_gains_losses_def by (blast intro: sum_list_last_n_nonneg)
qed

lemma calculate_rsi_numeric:
  assumes "0 < period" and "period + 1 \<le> length (items (prices a))"
  shows "\<exists>r. calculate_rsi a period = Inr (Some r)"
proof -
  let ?ps = "items (prices a)"
  let ?g = "sum_list (last_n period (fst (rsi_gains_losses ?ps period)))"
  let ?l = "sum_list (last_n period (snd (rsi_gains_losses ?ps period)))"
  have len: "length (fst (rsi_gains_losses ?ps period)) = period"
            "length (snd (rsi_gains_losses ?ps period)) = period"
    using rsi_gains_losses_lengths[OF assms(2)] by simp_all
  have g: "0 \<le> ?g" and l: "0 \<le> ?l" using rsi_gains_losses_nonneg by simp_all
  show ?thesis
  proof (cases "?l / real period = 0")
    case True
    then show ?thesis using assms len by (simp add: calculate_rsi_def Let_def)
  next
    case False
    have "0 \<le> (?g / real period) / (?l / real period)" using g l by simp
    then have "1 + (?g / real period) / (?l / real period) \<noteq> 0" by linarith
    then show ?thesis using assms len False by (simp add: calculate_rsi_def Let_def)
  qed
qed

lemma calculate_rsi_none_iff:
  "calculate_rsi a period = Inr None \<longleftrightarrow> length (items (prices a)) < period + 1"
proof (cases "length (items (prices a)) < period + 1")
  case True
  then show ?thesis by (simp add: calculate_rsi_def Let_def)
next
  case False
  show ?thesis
  proof (cases "period = 0")
    case True
    then show ?thesis using False rsi_gains_losses_lengths[of 0 "items (prices a)"]
      by (simp add: calculate_rsi_def Let_def)
  next
    case P: False
    then obtain r where "calculate_rsi a period = Inr (Some r)"
      using calculate_rsi_numeric[of period a] False by auto
    then show ?thesis using False by simp
  qed
qed

lemma rising_window_items:
  "items (prices rising_window) = [1, 2, 3, 4, 5, 6, 7, 8, 9, 10, 11, 12, 13, 14, 15]"
  by (simp add: rising_window_def default_analyzer_def init_analyzer_def deque_new_def
        add_price_def deque_append_def)

lemma rising_gains_losses:
  "rsi_gains_losses [1, 2, 3, 4, 5, 6, 7, 8, 9, 10, 11, 12, 13, 14, 15] 14
     = ([1, 1, 1, 1, 1, 1, 1, 1, 1, 1, 1, 1, 1, 1], [0, 0, 0, 0, 0, 0, 0, 0, 0, 0, 0, 0, 0, 0])"
  by (simp add: rsi_gains_losses_def upt_conv_Cons)

text \<open>
  Claim C1, as stated, fails on a window of exactly \<open>period + 1 = 15\<close> prices: the loop
  collects 14 gains and the function returns a number.
\<close>

theorem rsi_exactly_period_plus_one_counterexample:
  "length (items (prices rising_window)) = 14 + 1
   \<and> length (fst (rsi_gains_losses (items (prices rising_window)) 14)) = 14
   \<and> calculate_rsi rising_window 14 = Inr (Some 100)"
  by (simp add: rising_window_items rising_gains_losses calculate_rsi_def last_n_def)

text \<open>
  Claim C1, amended. \<open>calculate_rsi\<close> returns \<open>None\<close> exactly when the window holds fewer
  than \<open>period + 1\<close> prices. From \<open>period + 1\<close> prices on (for a positive period) the
  loop never meets index 0, the gains and the losses have \<open>period\<close> entries each, and the
  function returns a number.
\<close>

theorem rsi_history_requirement:
  "(calculate_rsi a period = Inr None \<longleftrightarrow> length (items (prices a)) < period + 1)
   \<and> (0 < period \<and> period + 1 \<le> length (items (prices a)) \<longrightarrow>
         length (fst (rsi_gains_losses (items (prices a)) period)) = period
         \<and> length (snd (rsi_gains_losses (items (prices a)) period)) = period
         \<and> (\<exists>r. calculate_rsi a period = Inr (Some r)))"
  using calculate_rsi_none_iff [of a period] rsi_gains_losses_lengths [of period "items (prices a)"]
    calculate_rsi_numeric [of period a]
  by blast

theorem rsi_history_requirement_witness:
  "0 < (14::nat) \<and> 14 + 1 \<le> length (items (prices rising_window))
   \<and> length (fst (rsi_gains_losses (items (prices rising_window)) 14)) = 14
   \<and> length (snd (rsi_gains_losses (items (prices rising_window)) 14)) = 14
   \<and> (\<exists>r. calculate_rsi rising_window 14 = Inr (Some r))
   \<and> calculate_rsi rising_window 14 \<noteq> Inr None"
  using rsi_history_requirement [of rising_window 14]
  by (simp add: rising_window_items)

section \<open>K-line levels and trend\<close>

lemma sorted_hd_Min:
  fixes xs :: "real list"
  assumes "sorted xs" and "xs \<noteq> []"
  shows "hd xs = Min (set xs)"
proof -
  obtain y ys where xs: "xs = y # ys" using assms(2) by (cases xs) auto
  have "\<forall>z \<in> set ys. y \<le> z" using assms(1) xs by simp
  then have "Min (set (y # ys)) = y" by (intro Min_eqI) auto
  then show ?thesis using xs by simp
qed

lemma sorted_last_Max:
  fixes xs :: "real list"
  assumes "sorted xs" and "xs \<noteq> []"
  shows "last xs = Max (set xs)"
proof -
  have "\<And>y. y \<in> set xs \<Longrightarrow> y \<le> last xs"
  proof -
    fix y assume "y \<in> set xs"
    then obtain i where i: "i < length xs" "xs ! i = y" by (auto simp: in_set_conv_nth)
    have "xs ! i \<le> xs ! (length xs - 1)"
      using assms(1) i(1) by (intro sorted_nth_mono) auto
    then show "y \<le> last xs" using i(2) assms(2) by (simp add: last_conv_nth)
  qed
  moreover have "last xs \<in> set xs" using assms(2) by simp
  ultimately have "Max (set xs) = last xs" by (intro Max_eqI) auto
  then show ?thesis by simp
qed

lemma trailing_window_subset: "set (trailing_window closes i) \<subseteq> set closes"
proof -
  have "set (take (i + 1 - (i - 5)) (drop (i - 5) closes)) \<subseteq> set (drop (i - 5) closes)"
    by (rule set_take_subset)
  also have "\<dots> \<subseteq> set closes" by (rule set_drop_subset)
  finally show ?thesis by (simp only: trailing_window_def py_slice_def)
qed

lemma trailing_window_spec: "trailing_window closes i = spec_window closes i"
proof -
  have e: "i + 1 - 6 = i - 5" by simp
  have "spec_window closes i = drop (i - 5) (take (i + 1) closes)"
    by (simp only: spec_window_def e)
  also have "\<dots> = take (i + 1 - (i - 5)) (drop (i - 5) closes)"
    by (rule drop_take)
  finally show ?thesis by (simp only: trailing_window_def py_slice_def)
qed

lemma trailing_window_newest:
  assumes "i < length closes"
  shows "closes ! i \<in> set (trailing_window closes i)"
proof -
  have len: "length (trailing_window closes i) = i + 1 - (i - 5)"
    using assms by (simp add: trailing_window_def py_slice_def)
  have "trailing_window closes i ! (i - (i - 5)) = closes ! i"
    using assms by (simp add: trailing_window_def py_slice_def)
  moreover have "i - (i - 5) < length (trailing_window closes i)"
    using len by simp
  ultimately show ?thesis by (metis nth_mem)
qed

lemma Max_window_maxima:
  assumes "closes \<noteq> []"
  shows "Max (set (window_maxima closes)) = Max (set closes)"
proof (rule Max_eqI)
  show "finite (set (window_maxima closes))" by simp
next
  fix y assume "y \<in> set (window_maxima closes)"
  then obtain i where i: "i < length closes" "y = Max (set (trailing_window closes i))"
    by (auto simp: window_maxima_def)
  have ne: "set (trailing_window closes i) \<noteq> {}" using trailing_window_newest[OF i(1)] by auto
  have "Max (set (trailing_window closes i)) \<in> set (trailing_window closes i)"
    using ne by (intro Max_in) auto
  then have "y \<in> set closes" using i(2) trailing_window_subset by auto
  then show "y \<le> Max (set closes)" by simp
next
  have "Max (set closes) \<in> set closes" using assms by (intro Max_in) auto
  then obtain i where i: "i < length closes" "closes ! i = Max (set closes)"
    by (auto simp: in_set_conv_nth)
  have ne: "set (trailing_window closes i) \<noteq> {}" using trailing_window_newest[OF i(1)] by auto
  have "Max (set (trailing_window closes i)) \<in> set (trailing_window closes i)"
    using ne by (intro Max_in) auto
  then have "Max (set (trailing_window closes i)) \<in> set closes"
    using trailing_window_subset by auto
  then have le: "Max (set (trailing_window closes i)) \<le> Max (set closes)" by simp
  have "closes ! i \<le> Max (set (trailing_window closes i))"
    using trailing_window_newest[OF i(1)] by simp
  then have "Max (set (trailing_window closes i)) = Max (set closes)" using le i(2) by simp
  then show "Max (set closes) \<in> set (window_maxima closes)"
    using i(1) by (auto simp: window_maxima_def image_iff intro!: bexI[of _ i])
qed

lemma Min_window_minima:
  assumes "closes \<noteq> []"
  shows "Min (set (window_minima closes)) = Min (set closes)"
proof (rule Min_eqI)
  show "finite (set (window_minima closes))" by simp
next
  fix y assume "y \<in> set (window_minima closes)"
  then obtain i where i: "i < length closes" "y = Min (set (trailing_window closes i))"
    by (auto simp: window_minima_def)
  have ne: "set (trailing_window closes i) \<noteq> {}" using trailing_window_newest[OF i(1)] by auto
  have "Min (set (trailing_window closes i)) \<in> set (trailing_window closes i)"
    using ne by (intro Min_in) auto
  then have "y \<in> set closes" using i(2) trailing_window_subset by auto
  then show "Min (set closes) \<le> y" by simp
next
  have "Min (set closes) \<in> set closes" using assms by (intro Min_in) auto
  then obtain i where i: "i < length closes" "closes ! i = Min (set closes)"
    by (auto simp: in_set_conv_nth)
  have ne: "set (trailing_window closes i) \<noteq> {}" using trailing_window_newest[OF i(1)] by auto
  have "Min (set (trailing_window closes i)) \<in> set (trailing_window closes i)"
    using ne by (intro Min_in) auto
  then have "Min (set (trailing_window closes i)) \<in> set closes"
    using trailing_window_subset by auto
  then have le: "Min (set closes) \<le> Min (set (trailing_window closes i))" by simp
  have "Min (set (trailing_window closes i)) \<le> closes ! i"
    using trailing_window_newest[OF i(1)] by simp
  then have "Min (set (trailing_window closes i)) = Min (set closes)" using le i(2) by simp
  then show "Min (set closes) \<in> set (window_minima closes)"
    using i(1) by (auto simp: window_minima_def image_iff intro!: bexI[of _ i])
qed

lemma hd_rev_sort_Max:
  fixes xs :: "real list"
  assumes "xs \<noteq> []"
  shows "hd (rev (sort xs)) = Max (set xs)"
proof -
  have "sort xs \<noteq> []" using assms by (metis length_sort length_0_conv)
  then have "last (sort xs) = Max (set (sort xs))" by (intro sorted_last_Max) simp_all
  then show ?thesis by (simp add: hd_rev)
qed

lemma hd_sort_Min:
  fixes xs :: "real list"
  assumes "xs \<noteq> []"
  shows "hd (sort xs) = Min (set xs)"
proof -
  have "sort xs \<noteq> []" using assms by (metis length_sort length_0_conv)
  then have "hd (sort xs) = Min (set (sort xs))" by (intro sorted_hd_Min) simp_all
  then show ?thesis by simp
qed

lemma kline_resistance_level_eq:
  assumes "closes \<noteq> []"
  shows "kline_resistance_level closes = Some (hd (rev (sort (window_maxima closes))))"
proof -
  have "window_maxima closes \<noteq> []"
    using assms by (simp add: window_maxima_def)
  then have ne: "rev (sort (window_maxima closes)) \<noteq> []"
    by (metis length_0_conv length_rev length_sort)
  then have "take 5 (rev (sort (window_maxima closes))) \<noteq> []" by simp
  moreover have "take 5 (rev (sort (window_maxima closes))) ! 0 = hd (rev (sort (window_maxima closes)))"
    using ne by (simp add: hd_conv_nth)
  ultimately show ?thesis
    by (simp add: kline_resistance_level_def recent_highs_def window_maxima_def)
qed

lemma kline_support_level_eq:
  assumes "closes \<noteq> []"
  shows "kline_support_level closes = Some (hd (sort (window_minima closes)))"
proof -
  have "window_minima closes \<noteq> []"
    using assms by (simp add: window_minima_def)
  then have ne: "sort (window_minima closes) \<noteq> []"
    by (metis length_0_conv length_sort)
  then have "take 5 (sort (window_minima closes)) \<noteq> []" by simp
  moreover have "take 5 (sort (window_minima closes)) ! 0 = hd (sort (window_minima closes))"
    using ne by (simp add: hd_conv_nth)
  ultimately show ?thesis
    by (simp add: kline_support_level_def recent_lows_def window_minima_def)
qed

lemma spec_resistance_eq: "spec_resistance closes = hd (rev (sort (window_maxima closes)))"
  by (simp add: spec_resistance_def window_maxima_def trailing_window_spec)

lemma spec_support_eq: "spec_support closes = hd (sort (window_minima closes))"
  by (simp add: spec_support_def window_minima_def trailing_window_spec)

lemma kline_levels_global:
  assumes "closes \<noteq> []"
  shows "kline_resistance_level closes = Some (spec_resistance closes)"
    and "kline_support_level closes = Some (spec_support closes)"
    and "kline_resistance_level closes = Some (Max (set closes))"
    and "kline_support_level closes = Some (Min (set closes))"
proof -
  have a: "window_maxima closes \<noteq> []" "window_minima closes \<noteq> []"
    using assms by (simp_all add: window_maxima_def window_minima_def)
  show "kline_resistance_level closes = Some (spec_resistance closes)"
    using assms by (simp add: kline_resistance_level_eq spec_resistance_eq)
  show "kline_support_level closes = Some (spec_support closes)"
    using assms by (simp add: kline_support_level_eq spec_support_eq)
  show "kline_resistance_level closes = Some (Max (set closes))"
    using assms a(1) by (simp add: kline_resistance_level_eq hd_rev_sort_Max Max_window_maxima)
  show "kline_support_level closes = Some (Min (set closes))"
    using assms a(2) by (simp add: kline_support_level_eq hd_sort_Min Min_window_minima)
qed

lemma kline_trend_of_eq:
  assumes "closes \<noteq> []"
  shows "kline_trend_of closes =
     (if last closes > closes ! (length closes - min 10 (length closes))
      then KBullish else KBearish)"
proof (cases "10 \<le> length closes")
  case True
  have l: "last closes = closes ! (length closes - 1)"
    using assms by (rule last_conv_nth)
  have a: "drop (length closes - 10) closes ! 9 = closes ! (length closes - 1)"
    using True by simp
  have b: "drop (length closes - 10) closes ! 0 = closes ! (length closes - 10)"
    using True by simp
  show ?thesis using True a b l
    by (simp add: kline_trend_of_def last_n_def Let_def min_def)
next
  case False
  have l: "last closes = closes ! (length closes - 1)"
    using assms by (rule last_conv_nth)
  show ?thesis using False l
    by (simp add: kline_trend_of_def Let_def min_def)
qed

lemma stdev_two_points: "2 \<le> length xs \<Longrightarrow> \<exists>v. stdev xs = Inr v"
  by (simp add: stdev_def Let_def)

lemma get_kline_analysis_summary:
  assumes "2 \<le> length closes" and "closes ! 0 \<noteq> 0"
  shows "\<exists>k. get_kline_analysis (Some closes) = KlineAnalysis k
           \<and> k_trend k = kline_trend_of closes
           \<and> k_support k = shown (kline_support_level closes)
           \<and> k_resistance k = shown (kline_resistance_level closes)"
proof -
  obtain v where "stdev closes = Inr v" using stdev_two_points[OF assms(1)] by blast
  moreover have "closes \<noteq> []" using assms(1) by auto
  ultimately show ?thesis using assms by (simp add: get_kline_analysis_def)
qed

text \<open>
  Claim C2, as stated, fails: no batch of at least two closes has a resistance other
  than its greatest close, or a support other than its least close.
\<close>

theorem kline_levels_differ_counterexample:
  "\<not> (\<exists>closes. 2 \<le> length closes
          \<and> (kline_resistance_level closes \<noteq> Some (Max (set closes))
               \<or> kline_support_level closes \<noteq> Some (Min (set closes))))"
proof
  assume "\<exists>closes. 2 \<le> length closes
          \<and> (kline_resistance_level closes \<noteq> Some (Max (set closes))
               \<or> kline_support_level closes \<noteq> Some (Min (set closes)))"
  then obtain closes where c: "2 \<le> length closes"
    and d: "kline_resistance_level closes \<noteq> Some (Max (set closes))
            \<or> kline_support_level closes \<noteq> Some (Min (set closes))"
    by blast
  from c have "closes \<noteq> []" by auto
  then have "kline_resistance_level closes = Some (Max (set closes))"
    and "kline_support_level closes = Some (Min (set closes))"
    by (rule kline_levels_global)+
  with d show False by blast
qed

text \<open>
  Claim C2, amended. For a batch of at least two closes the resistance the code computes
  is the one the specification describes (the per-index maxima of the trailing windows of
  up to six points, sorted in descending order, the first taken), likewise the support,
  and these are the greatest and the least close of the whole batch.
\<close>

theorem kline_levels_are_global_extrema:
  assumes "2 \<le> length closes"
  shows "kline_resistance_level closes = Some (spec_resistance closes)
     \<and> kline_support_level closes = Some (spec_support closes)
     \<and> kline_resistance_level closes = Some (Max (set closes))
     \<and> kline_support_level closes = Some (Min (set closes))"
proof -
  from assms have "closes \<noteq> []" by auto
  then show ?thesis using kline_levels_global [of closes] by blast
qed

theorem kline_levels_are_global_extrema_witness:
  "2 \<le> length [3, 1, 2 :: real]
   \<and> kline_resistance_level [3, 1, 2] = Some 3
   \<and> kline_support_level [3, 1, 2] = Some 1"
proof -
  have len: "2 \<le> length [3, 1, 2 :: real]" by simp
  have "Max (set [3, 1, 2 :: real]) = 3" and "Min (set [3, 1, 2 :: real]) = 1" by simp_all
  with len kline_levels_are_global_extrema [OF len] show ?thesis by metis
qed

text \<open>
  Claim C3, as stated, fails on a batch whose newest close equals the oldest close of
  the slice: the trend is bearish.
\<close>

theorem kline_trend_tie_counterexample:
  "last [1, 1::real] \<ge> [1, 1] ! 0
   \<and> get_kline_analysis (Some [1, 1])
     = KlineAnalysis \<lparr>k_trend = KBearish, k_volatility = 0,
                      k_support = Some 1, k_resistance = Some 1\<rparr>"
  by (simp add: get_kline_analysis_def stdev_def kline_trend_of_def kline_support_level_def
        kline_resistance_level_def recent_highs_def recent_lows_def trailing_window_def
        py_slice_def shown_def truthy_def Let_def upt_conv_Cons)

text \<open>
  Claim C3, amended. For a batch of at least two closes the trend is bullish when the
  newest close is strictly greater than the oldest close of the last ten (or of the whole
  batch when it is shorter), and bearish otherwise, equality included. It is the trend of
  the analysis whenever the first close of the batch is not zero.
\<close>

theorem kline_trend_strict:
  assumes "2 \<le> length closes"
  shows "kline_trend_of closes =
           (if last closes > closes ! (length closes - min 10 (length closes))
            then KBullish else KBearish)
     \<and> (closes ! 0 \<noteq> 0 \<longrightarrow>
           (\<exists>k. get_kline_analysis (Some closes) = KlineAnalysis k
                \<and> k_trend k = kline_trend_of closes))"
proof -
  from assms have "closes \<noteq> []" by auto
  then have "kline_trend_of closes =
           (if last closes > closes ! (length closes - min 10 (length closes))
            then KBullish else KBearish)"
    by (rule kline_trend_of_eq)
  moreover have "closes ! 0 \<noteq> 0 \<longrightarrow>
           (\<exists>k. get_kline_analysis (Some closes) = KlineAnalysis k
                \<and> k_trend k = kline_trend_of closes)"
    using get_kline_analysis_summary [OF assms] by blast
  ultimately show ?thesis by blast
qed

theorem kline_trend_strict_witness:
  "2 \<le> length [1, 2, 3, 4, 5, 6, 7, 8, 9, 10 :: real]
   \<and> [1, 2, 3, 4, 5, 6, 7, 8, 9, 10 :: real] ! 0 \<noteq> 0
   \<and> kline_trend_of [1, 2, 3, 4, 5, 6, 7, 8, 9, 10] = KBullish
   \<and> (\<exists>k. get_kline_analysis (Some [1, 2, 3, 4, 5, 6, 7, 8, 9, 10]) = KlineAnalysis k
          \<and> k_trend k = KBullish)"
proof -
  let ?batch = "[1, 2, 3, 4, 5, 6, 7, 8, 9, 10 :: real]"
  have len: "2 \<le> length ?batch" and nz: "?batch ! 0 \<noteq> 0" by simp_all
  have gt: "last ?batch > ?batch ! (length ?batch - min 10 (length ?batch))" by simp
  have t: "kline_trend_of ?batch = KBullish"
    using kline_trend_strict [OF len] gt by presburger
  have "\<exists>k. get_kline_analysis (Some ?batch) = KlineAnalysis k \<and> k_trend k = kline_trend_of ?batch"
    using kline_trend_strict [OF len] nz by blast
  with t len nz show ?thesis by metis
qed

section \<open>The composed interpretation\<close>

lemma falling_window_items:
  "items (prices falling_window) = [15, 14, 13, 12, 11, 10, 9, 8, 7, 6, 5, 4, 3, 2, 1]"
  by (simp add: falling_window_def default_analyzer_def init_analyzer_def deque_new_def
        add_price_def deque_append_def)

lemma falling_window_lookback: "lookback_period falling_window = 20"
  unfolding falling_window_def add_prices_lookback
  by (simp add: default_analyzer_def init_analyzer_def)

lemma falling_gains_losses:
  "rsi_gains_losses [15, 14, 13, 12, 11, 10, 9, 8, 7, 6, 5, 4, 3, 2, 1] 14
     = ([0, 0, 0, 0, 0, 0, 0, 0, 0, 0, 0, 0, 0, 0], [1, 1, 1, 1, 1, 1, 1, 1, 1, 1, 1, 1, 1, 1])"
  by (simp add: rsi_gains_losses_def upt_conv_Cons)

lemma falling_rsi: "calculate_rsi falling_window 14 = Inr (Some 0)"
  by (simp add: falling_window_items falling_gains_losses calculate_rsi_def last_n_def)

lemma falling_sma: "calculate_sma falling_window None = Inr (Some 8)"
  by (simp add: falling_window_items falling_window_lookback calculate_sma_def last_n_def)

lemma last_n_length:
  "0 < n \<Longrightarrow> n \<le> length xs \<Longrightarrow> length (last_n n xs) = n"
  by (simp add: last_n_def)

lemma calculate_ema_defined:
  assumes "0 < period" and "period \<le> length (items (prices a))"
  shows "\<exists>v. calculate_ema a period = Inr (Some v)"
proof -
  have "length (last_n period (items (prices a))) = period"
    using assms by (rule last_n_length)
  then obtain p0 rest where "last_n period (items (prices a)) = p0 # rest"
    using assms(1) by (cases "last_n period (items (prices a))") auto
  then show ?thesis using assms(2) by (simp add: calculate_ema_def)
qed

lemma get_volatility_defined:
  assumes "0 < period" and "period \<le> length (items (prices a))"
  shows "\<exists>v. get_volatility a period = Inr (Some v)"
proof -
  let ?recent = "last_n period (items (prices a))"
  have len: "length ?recent = period" using assms by (rule last_n_length)
  show ?thesis
  proof (cases "length (remdups ?recent) = 1")
    case True
    then show ?thesis using assms(2) by (simp add: get_volatility_def)
  next
    case False
    have "length ?recent \<noteq> 1"
    proof
      assume "length ?recent = 1"
      then obtain x where "?recent = [x]" by (cases ?recent) auto
      then have "length (remdups ?recent) = 1" by simp
      with False show False by simp
    qed
    then have "2 \<le> length ?recent" using len assms(1) by simp
    then obtain v where "stdev ?recent = Inr v" by (auto simp: stdev_def Let_def)
    then show ?thesis using assms(2) False by (simp add: get_volatility_def)
  qed
qed

lemma falling_ema: "\<exists>v. calculate_ema falling_window 12 = Inr (Some v)"
  by (rule calculate_ema_defined) (simp_all add: falling_window_items)

lemma falling_trend: "get_trend falling_window = Bearish"
  by (simp add: falling_window_items get_trend_def trend_of_recent_def last_n_def)

lemma falling_levels:
  "analyze_support_resistance falling_window 8 = \<lparr>support = Some 1, resistance = Some 8\<rparr>"
  by (simp add: falling_window_items analyze_support_resistance_def last_n_def)

lemma falling_momentum: "get_momentum falling_window 5 = Inr (Some (- 80))"
  by (simp add: falling_window_items get_momentum_def)

lemma falling_volatility: "\<exists>v. get_volatility falling_window 5 = Inr (Some v)"
  by (rule get_volatility_defined) (simp_all add: falling_window_items)

lemma falling_interpretation:
  "\<exists>v. interpretation_line d falling_window None
     = Inr (generate_interpretation (pd_price d) Bearish (Some 8) (Some 0)
              \<lparr>support = Some 1, resistance = Some 8\<rparr> (Some v) (Some (- 80))
              None None None None)"
proof -
  obtain e where e: "calculate_ema falling_window 12 = Inr (Some e)" using falling_ema by blast
  obtain v where v: "get_volatility falling_window 5 = Inr (Some v)"
    using falling_volatility by blast
  have "interpretation_line d falling_window None
     = Inr (generate_interpretation (pd_price d) Bearish (Some 8) (Some 0)
              \<lparr>support = Some 1, resistance = Some 8\<rparr> (Some v) (Some (- 80))
              None None None None)"
    by (simp add: interpretation_line_def bind_result_def falling_sma e falling_rsi v
          falling_momentum falling_trend falling_levels get_kline_analysis_def)
  then show ?thesis by blast
qed

lemma falling_message:
  "interpretation_line
     \<lparr>pd_price = 1, pd_change_percentage = 0, pd_lowest_ask = 1, pd_highest_bid = 1,
      pd_high_24h = 15, pd_low_24h = 1, pd_base_volume = 0, pd_quote_volume = 0\<rparr>
     falling_window None
   = Inr [ShortTermFalling Bearish, PriceBelowSMA 8, NearSupport 1, MomentumStrong (- 80) Down]"
proof -
  let ?d = "\<lparr>pd_price = 1, pd_change_percentage = 0, pd_lowest_ask = 1, pd_highest_bid = 1,
      pd_high_24h = 15, pd_low_24h = 1, pd_base_volume = 0, pd_quote_volume = 0\<rparr>"
  obtain v where "interpretation_line ?d falling_window None
     = Inr (generate_interpretation (pd_price ?d) Bearish (Some 8) (Some 0)
              \<lparr>support = Some 1, resistance = Some 8\<rparr> (Some v) (Some (- 80))
              None None None None)"
    using falling_interpretation [of ?d] by blast
  then show ?thesis
    by (simp add: generate_interpretation_def trend_rule_def sma_rule_def rsi_rule_def
          levels_rule_def momentum_rule_def kline_rule_def py_int_def)
qed

text \<open>
  Claim C4 at an RSI of zero. Fifteen falling prices give an RSI of exactly 0; the guard
  of the RSI rule treats it as absent, so no RSI statement is composed: alone it leaves
  only the fallback, and in the message for the falling window the oversold statement
  is missing.
\<close>

theorem rsi_zero_dropped:
  "calculate_rsi falling_window 14 = Inr (Some 0)
   \<and> rsi_rule (Some 0) = []
   \<and> generate_interpretation 1 Insufficient None (Some 0) \<lparr>support = None, resistance = None\<rparr>
        None None None None None None = [IndicatorsInsufficient]
   \<and> interpretation_line
         \<lparr>pd_price = 1, pd_change_percentage = 0, pd_lowest_ask = 1, pd_highest_bid = 1,
          pd_high_24h = 15, pd_low_24h = 1, pd_base_volume = 0, pd_quote_volume = 0\<rparr>
         falling_window None
       = Inr [ShortTermFalling Bearish, PriceBelowSMA 8, NearSupport 1, MomentumStrong (- 80) Down]"
  by (simp add: falling_rsi falling_message generate_interpretation_def trend_rule_def
        sma_rule_def rsi_rule_def levels_rule_def momentum_rule_def kline_rule_def)

text \<open>What the RSI rule does for an absent and for a non-zero RSI.\<close>

lemma rsi_rule_present:
  "rsi_rule None = []
   \<and> (v \<noteq> 0 \<longrightarrow> rsi_rule (Some v) =
         (if v > 70 then [RSIOverbought v] else if v < 30 then [RSIOversold v] else [RSINeutral v]))"
  by (simp add: rsi_rule_def)

text \<open>
  Claim C5. With the trend insufficient and the SMA, the RSI, both levels, the momentum
  and the K-line trend absent, the composer returns the fallback statement and nothing
  else, whatever the price and the unread parameters are.
\<close>

theorem fallback_statement:
  "generate_interpretation current_price Insufficient None None
     \<lparr>support = None, resistance = None\<rparr> volatility None None
     kline_volatility kline_support kline_resistance = [IndicatorsInsufficient]"
  by (simp add: generate_interpretation_def trend_rule_def sma_rule_def rsi_rule_def
        levels_rule_def momentum_rule_def kline_rule_def)

section \<open>A failed fetch\<close>

lemma get_hsk_price_failures:
  "get_hsk_price HTTPError = None" "get_hsk_price Timeout = None"
  "get_hsk_price ConnectionError = None" "get_hsk_price InvalidJSON = None"
  "get_hsk_price OtherException = None" "get_hsk_price JsonNotList = None"
  "get_hsk_price (JsonList []) = None"
  by (simp_all add: get_hsk_price_def)

lemma main_cycle_fetch_failed:
  "get_hsk_price (ci_ticker i) = None \<Longrightarrow> main_cycle a i = (a, FetchFailed)"
  by (simp add: main_cycle_def)

text \<open>
  Claim C6. Each kind of failed fetch (HTTP error, timeout, connection error, invalid
  JSON, any other exception, a non-list or empty payload, a ticker with a missing or
  unparsable field) makes \<open>get_hsk_price\<close> return \<open>None\<close>, and a pass of the loop whose
  fetch returns \<open>None\<close> hands back the analyzer it was given: no price is appended and the
  window holds what it held before.
\<close>

theorem fetch_failure_leaves_window:
  "get_hsk_price HTTPError = None \<and> get_hsk_price Timeout = None
   \<and> get_hsk_price ConnectionError = None \<and> get_hsk_price InvalidJSON = None
   \<and> get_hsk_price OtherException = None \<and> get_hsk_price JsonNotList = None
   \<and> get_hsk_price (JsonList []) = None
   \<and> (parse_ticker t = None \<longrightarrow> get_hsk_price (JsonList (t # rest)) = None)
   \<and> (get_hsk_price (ci_ticker i) = None \<longrightarrow>
         fst (main_cycle a i) = a
         \<and> items (prices (fst (main_cycle a i))) = items (prices a)
         \<and> snd (main_cycle a i) = FetchFailed)"
  by (simp add: get_hsk_price_failures main_cycle_fetch_failed) (simp add: get_hsk_price_def)

theorem fetch_failure_leaves_window_witness:
  "get_hsk_price (ci_ticker \<lparr>ci_ticker = Timeout, ci_now = 16, ci_klines = None,
                              ci_webhook_ok = True\<rparr>) = None
   \<and> items (prices (fst (main_cycle rising_window
         \<lparr>ci_ticker = Timeout, ci_now = 16, ci_klines = None, ci_webhook_ok = True\<rparr>)))
       = [1, 2, 3, 4, 5, 6, 7, 8, 9, 10, 11, 12, 13, 14, 15]
   \<and> parse_ticker \<lparr>t_last = None, t_change_percentage = Some 1, t_lowest_ask = Some 1,
         t_highest_bid = Some 1, t_high_24h = Some 1, t_low_24h = Some 1,
         t_base_volume = Some 1, t_quote_volume = Some 1\<rparr> = None
   \<and> get_hsk_price (JsonList [\<lparr>t_last = None, t_change_percentage = Some 1,
         t_lowest_ask = Some 1, t_highest_bid = Some 1, t_high_24h = Some 1,
         t_low_24h = Some 1, t_base_volume = Some 1, t_quote_volume = Some 1\<rparr>]) = None"
proof -
  let ?i = "\<lparr>ci_ticker = Timeout, ci_now = 16, ci_klines = None, ci_webhook_ok = True\<rparr>"
  let ?t = "\<lparr>t_last = None, t_change_percentage = Some 1, t_lowest_ask = Some 1,
         t_highest_bid = Some 1, t_high_24h = Some 1, t_low_24h = Some 1,
         t_base_volume = Some 1, t_quote_volume = Some (1::real)\<rparr>"
  have f: "get_hsk_price (ci_ticker ?i) = None" by (simp add: get_hsk_price_def)
  have p: "parse_ticker ?t = None" by (simp add: parse_ticker_def)
  from fetch_failure_leaves_window [of ?t "[]" ?i rising_window] f p
  have "items (prices (fst (main_cycle rising_window ?i))) = items (prices rising_window)"
    and "get_hsk_price (JsonList [?t]) = None"
    by blast+
  with f p show ?thesis by (simp add: rising_window_items)
qed

section \<open>The default moving average\<close>

text \<open>
  Claim C10. On an empty window \<open>calculate_sma\<close> with the default period divides by zero.
  On a non-empty window of an analyzer built by the constructor and \<open>add_price\<close> the
  default period is positive and the result is the mean of the window.
\<close>

theorem sma_empty_window_divides_by_zero:
  "(items (prices a) = [] \<longrightarrow> calculate_sma a None = Inl ZeroDivisionError)
   \<and> (wf_analyzer a \<and> items (prices a) \<noteq> [] \<longrightarrow>
         0 < min (lookback_period a) (length (items (prices a)))
         \<and> calculate_sma a None
             = Inr (Some (sum_list (items (prices a)) / real (length (items (prices a))))))"
proof (intro conjI impI)
  assume "items (prices a) = []"
  then show "calculate_sma a None = Inl ZeroDivisionError"
    by (simp add: calculate_sma_def)
next
  assume h: "wf_analyzer a \<and> items (prices a) \<noteq> []"
  then have le: "length (items (prices a)) \<le> lookback_period a"
    and pos: "0 < length (items (prices a))"
    by (simp_all add: wf_analyzer_def)
  then show "0 < min (lookback_period a) (length (items (prices a)))" by simp
  from le pos show "calculate_sma a None
      = Inr (Some (sum_list (items (prices a)) / real (length (items (prices a)))))"
    by (simp add: calculate_sma_def last_n_def min_def Let_def)
qed

lemma rising_window_wf: "wf_analyzer rising_window"
  unfolding rising_window_def default_analyzer_def
  by (rule add_prices_wf) (rule init_analyzer_wf)

theorem sma_empty_window_divides_by_zero_witness:
  "items (prices default_analyzer) = []
   \<and> calculate_sma default_analyzer None = Inl ZeroDivisionError
   \<and> wf_analyzer rising_window \<and> items (prices rising_window) \<noteq> []
   \<and> calculate_sma rising_window None = Inr (Some 8)"
proof -
  have e: "items (prices default_analyzer) = []"
    by (simp add: default_analyzer_def init_analyzer_def deque_new_def)
  have n: "items (prices rising_window) \<noteq> []" by (simp add: rising_window_items)
  from sma_empty_window_divides_by_zero [of default_analyzer] e
  have z: "calculate_sma default_analyzer None = Inl ZeroDivisionError" by blast
  from sma_empty_window_divides_by_zero [of rising_window] rising_window_wf n
  have "calculate_sma rising_window None
      = Inr (Some (sum_list (items (prices rising_window)) / real (length (items (prices rising_window)))))"
    by blast
  then have "calculate_sma rising_window None = Inr (Some 8)"
    by (simp add: rising_window_items)
  with e z rising_window_wf n show ?thesis by blast
qed

section \<open>The trend under a change of scale\<close>

lemma remdups_scale:
  fixes xs :: "real list"
  assumes "c \<noteq> 0"
  shows "length (remdups (map ((*) c) xs)) = length (remdups xs)"
proof -
  have "inj_on ((*) c) (set xs)" using assms by (simp add: inj_on_def)
  then have "card ((*) c ` set xs) = card (set xs)" by (rule card_image)
  then show ?thesis by (simp add: length_remdups_card_conv)
qed

lemma trend_of_recent_scale:
  fixes xs :: "real list"
  assumes "0 < c" and "xs \<noteq> []"
  shows "trend_of_recent (map ((*) c) xs) = trend_of_recent xs"
proof -
  have i1: "length xs - 1 < length xs" and i0: "0 < length xs" and i2: "length xs - 2 < length xs"
    using assms(2) by simp_all
  have n1: "map ((*) c) xs ! (length xs - 1) = c * xs ! (length xs - 1)"
    using i1 by (rule nth_map)
  have n0: "map ((*) c) xs ! 0 = c * xs ! 0" using i0 by (rule nth_map)
  have n2: "map ((*) c) xs ! (length xs - 2) = c * xs ! (length xs - 2)"
    using i2 by (rule nth_map)
  have r: "length (remdups (map ((*) c) xs)) = length (remdups xs)"
    using assms(1) by (intro remdups_scale) simp
  show ?thesis
    unfolding trend_of_recent_def length_map n1 n0 n2 r
    using assms(1) by (simp add: mult_less_cancel_left_pos)
qed

lemma length_last_n: "length (last_n n xs) = (if n = 0 then length xs else min n (length xs))"
  by (auto simp: last_n_def)

text \<open>In exact arithmetic a positive factor never changes the trend.\<close>

lemma trend_scale_exact:
  assumes "0 < c" and "5 \<le> length (items (prices a))"
    and "last_n 5 (items (prices b)) = map ((*) c) (last_n 5 (items (prices a)))"
  shows "get_trend b = get_trend a \<and> get_trend a \<noteq> Insufficient"
proof -
  have la: "length (last_n 5 (items (prices a))) = 5"
    using assms(2) by (simp add: length_last_n)
  then have "length (last_n 5 (items (prices b))) = 5" using assms(3) by simp
  then have lb: "5 \<le> length (items (prices b))" by (simp add: length_last_n split: if_splits)
  have ne: "last_n 5 (items (prices a)) \<noteq> []" using la by auto
  have "trend_of_recent (last_n 5 (items (prices b))) = trend_of_recent (last_n 5 (items (prices a)))"
    unfolding assms(3) using assms(1) ne by (rule trend_of_recent_scale)
  then have "get_trend b = get_trend a" using assms(2) lb by (simp add: get_trend_def)
  moreover have "trend_of_recent xs \<noteq> Insufficient" for xs
    by (simp add: trend_of_recent_def)
  then have "get_trend a \<noteq> Insufficient" using assms(2) by (simp add: get_trend_def)
  ultimately show ?thesis by blast
qed

subsection \<open>Float products\<close>

lemma bitlen_eqI:
  assumes "0 < k" and "2 ^ (k - 1) \<le> x" and "x < 2 ^ k"
  shows "bitlen x = int k"
proof -
  have pos: "0 < x" using assms(2) by (smt (verit) zero_less_power)
  have b: "2 ^ nat (bitlen x - 1) \<le> x" "x < 2 ^ nat (bitlen x)"
    using bitlen_bounds [OF pos] by simp_all
  have "(2::int) ^ (k - 1) < 2 ^ nat (bitlen x)" using assms(2) b(2) by linarith
  then have l1: "k - 1 < nat (bitlen x)" by simp
  have "(2::int) ^ nat (bitlen x - 1) < 2 ^ k" using assms(3) b(1) by linarith
  then have l2: "nat (bitlen x - 1) < k" by simp
  from l1 l2 assms(1) show ?thesis by linarith
qed

lemma product_bitlen_a: "bitlen (7656119366529843 * 5404319552844595) = 106"
  using bitlen_eqI [of 106 "7656119366529843 * 5404319552844595"] by simp

lemma product_bitlen_b: "bitlen (7656119366529844 * 5404319552844595) = 106"
  using bitlen_eqI [of 106 "7656119366529844 * 5404319552844595"] by simp

lemma near_tie_product_a:
  "double_mul (Double 5404319552844595 (- 53)) (Double 7656119366529843 (- 52))
     = Finite (Double 4593671619917906 (- 52))"
  using product_bitlen_a
  by (simp add: double_mul_def round_half_even_def Let_def mult.commute)

lemma near_tie_product_b:
  "double_mul (Double 5404319552844595 (- 53)) (Double 7656119366529844 (- 52))
     = Finite (Double 4593671619917906 (- 52))"
  using product_bitlen_b
  by (simp add: double_mul_def round_half_even_def Let_def mult.commute)

lemma bitlen_small: 
  assumes "\<bar>m\<bar> < 2 ^ 53"
  shows "bitlen \<bar>m\<bar> \<le> 53"
proof (cases "m = 0")
  case True
  then show ?thesis by simp
next
  case False
  then have pos: "0 < \<bar>m\<bar>" by simp
  have "2 ^ nat (bitlen \<bar>m\<bar> - 1) \<le> \<bar>m\<bar>" using bitlen_bounds [OF pos] by simp
  then have "(2::int) ^ nat (bitlen \<bar>m\<bar> - 1) < 2 ^ 53" using assms by linarith
  moreover have "(1::int) < 2" by simp
  ultimately have "nat (bitlen \<bar>m\<bar> - 1) < 53" by (rule power_less_imp_less_exp [rotated])
  then show ?thesis by linarith
qed

lemma round_half_even_0: "round_half_even m 0 = m"
  by (simp add: round_half_even_def)

lemma double_mul_exact:
  assumes "\<bar>mx * my\<bar> < 2 ^ 53" and "- 1074 \<le> ex + ey"
    and "real_of_int \<bar>mx * my\<bar> * 2 powi (ex + ey) < 2 ^ 1024"
  shows "double_mul (Double mx ex) (Double my ey) = Finite (Double (mx * my) (ex + ey))"
proof -
  have "bitlen \<bar>mx * my\<bar> - 53 \<le> 0" using bitlen_small [OF assms(1)] by simp
  moreover have "- 1074 - (ex + ey) \<le> 0" using assms(2) by simp
  ultimately have k: "nat (max (bitlen \<bar>mx * my\<bar> - 53) (- 1074 - (ex + ey))) = 0" by simp
  have s: "sgn (mx * my) * \<bar>mx * my\<bar> = mx * my" by (simp add: sgn_mult_abs)
  show ?thesis
    unfolding double_mul_def Let_def double.sel k round_half_even_0 s
    using assms(3) by simp
qed

lemma singleton_set_nth:
  "(\<exists>x. set xs = {x}) \<longleftrightarrow> xs \<noteq> [] \<and> (\<forall>i<length xs. xs ! i = xs ! 0)"
proof
  assume "\<exists>x. set xs = {x}"
  then obtain x where x: "set xs = {x}" ..
  have ne: "xs \<noteq> []"
  proof
    assume "xs = []"
    then have "set xs = {}" by simp
    with x show False by simp
  qed
  have all: "xs ! i = x" if "i < length xs" for i
  proof -
    have "xs ! i \<in> set xs" using that by (rule nth_mem)
    then show ?thesis unfolding x by (rule singletonD)
  qed
  have "0 < length xs" using ne by simp
  then have "xs ! 0 = x" by (rule all)
  then show "xs \<noteq> [] \<and> (\<forall>i<length xs. xs ! i = xs ! 0)" using ne all by simp
next
  assume a: "xs \<noteq> [] \<and> (\<forall>i<length xs. xs ! i = xs ! 0)"
  have "set xs = {xs ! 0}"
  proof (rule set_eqI)
    fix y
    show "y \<in> set xs \<longleftrightarrow> y \<in> {xs ! 0}"
    proof
      assume "y \<in> set xs"
      then obtain i where "i < length xs" and "xs ! i = y" unfolding in_set_conv_nth by blast
      then have "y = xs ! 0" using a by blast
      then show "y \<in> {xs ! 0}" by simp
    next
      assume "y \<in> {xs ! 0}"
      then have "y = xs ! 0" by (rule singletonD)
      moreover have "0 < length xs" using a by simp
      then have "xs ! 0 \<in> set xs" by (rule nth_mem)
      ultimately show "y \<in> set xs" by simp
    qed
  qed
  then show "\<exists>x. set xs = {x}" ..
qed

lemma singleton_remdups:
  "length (remdups xs) = 1 \<longleftrightarrow> xs \<noteq> [] \<and> (\<forall>i<length xs. xs ! i = xs ! 0)"
proof -
  have "length (remdups xs) = 1 \<longleftrightarrow> (\<exists>x. set xs = {x})"
    unfolding length_remdups_card_conv One_nat_def by (rule card_1_singleton_iff)
  then show ?thesis unfolding singleton_set_nth .
qed

lemma trend_of_recent_order:
  fixes xs ys :: "real list"
  assumes len: "length ys = length xs" and ne: "xs \<noteq> []"
    and ord: "\<forall>i<length xs. \<forall>j<length xs. (ys ! i < ys ! j) = (xs ! i < xs ! j)"
  shows "trend_of_recent ys = trend_of_recent xs"
proof -
  have eq: "(ys ! i = ys ! j) = (xs ! i = xs ! j)" if "i < length xs" "j < length xs" for i j
  proof -
    have "(ys ! i < ys ! j) = (xs ! i < xs ! j)" and "(ys ! j < ys ! i) = (xs ! j < xs ! i)"
      using ord that by simp_all
    then show ?thesis by linarith
  qed
  have ney: "ys \<noteq> []" using len ne by auto
  have i0: "0 < length xs" using ne by simp
  have "(\<forall>i<length ys. ys ! i = ys ! 0) = (\<forall>i<length xs. xs ! i = xs ! 0)"
    unfolding len using eq i0 by blast
  then have r: "(length (remdups ys) = 1) = (length (remdups xs) = 1)"
    unfolding singleton_remdups using ne ney by blast
  have i1: "length xs - 1 < length xs" and i2: "length xs - 2 < length xs"
    using ne by simp_all
  have c1: "(ys ! (length xs - 1) > ys ! 0) = (xs ! (length xs - 1) > xs ! 0)"
    using ord i1 i0 by simp
  have c2: "(ys ! (length xs - 1) > ys ! (length xs - 2))
              = (xs ! (length xs - 1) > xs ! (length xs - 2))"
    using ord i1 i2 by simp
  have c3: "(ys ! (length xs - 1) < ys ! (length xs - 2))
              = (xs ! (length xs - 1) < xs ! (length xs - 2))"
    using ord i1 i2 by simp
  show ?thesis
    unfolding trend_of_recent_def len r c1 c2 c3 by (rule refl)
qed

lemma trend_of_recent_label: "trend_of_recent xs \<noteq> Insufficient"
  by (simp add: trend_of_recent_def)

lemma near_tie_window_items:
  "items (prices near_tie_window)
     = map double_value
         [Double 7656119366529843 (- 52), Double 7656119366529843 (- 52),
          Double 7656119366529843 (- 52), Double 7656119366529843 (- 52),
          Double 7656119366529844 (- 52)]"
  by (simp add: near_tie_window_def default_analyzer_def init_analyzer_def deque_new_def
        add_price_def deque_append_def)

lemma scaled_near_tie_window_items:
  "items (prices scaled_near_tie_window)
     = map double_value
         [Double 4593671619917906 (- 52), Double 4593671619917906 (- 52),
          Double 4593671619917906 (- 52), Double 4593671619917906 (- 52),
          Double 4593671619917906 (- 52)]"
  by (simp add: scaled_near_tie_window_def default_analyzer_def init_analyzer_def deque_new_def
        add_price_def deque_append_def)

lemma near_tie_trend: "get_trend near_tie_window = Bullish"
  by (simp add: get_trend_def near_tie_window_items last_n_def trend_of_recent_def
        double_value_def)

lemma scaled_near_tie_trend: "get_trend scaled_near_tie_window = Neutral"
  by (simp add: get_trend_def scaled_near_tie_window_items last_n_def trend_of_recent_def
        double_value_def)

text \<open>
  Claim C8, as stated, fails for floats. The window holds 1.7 four times and then the
  next float above it, so its trend is bullish. Each float product with the positive
  constant 0.6 rounds to the same float, so the scaled window is constant and its trend
  is neutral.
\<close>

theorem trend_scale_rounding_counterexample:
  "5 \<le> length (items (prices near_tie_window))
   \<and> 0 < double_value (Double 5404319552844595 (- 53))
   \<and> last_n 5 (items (prices near_tie_window))
       = map double_value
           [Double 7656119366529843 (- 52), Double 7656119366529843 (- 52),
            Double 7656119366529843 (- 52), Double 7656119366529843 (- 52),
            Double 7656119366529844 (- 52)]
   \<and> map (double_mul (Double 5404319552844595 (- 53)))
           [Double 7656119366529843 (- 52), Double 7656119366529843 (- 52),
            Double 7656119366529843 (- 52), Double 7656119366529843 (- 52),
            Double 7656119366529844 (- 52)]
       = map Finite
           [Double 4593671619917906 (- 52), Double 4593671619917906 (- 52),
            Double 4593671619917906 (- 52), Double 4593671619917906 (- 52),
            Double 4593671619917906 (- 52)]
   \<and> last_n 5 (items (prices scaled_near_tie_window))
       = map double_value
           [Double 4593671619917906 (- 52), Double 4593671619917906 (- 52),
            Double 4593671619917906 (- 52), Double 4593671619917906 (- 52),
            Double 4593671619917906 (- 52)]
   \<and> get_trend near_tie_window = Bullish
   \<and> get_trend scaled_near_tie_window = Neutral"
  by (simp add: near_tie_window_items scaled_near_tie_window_items last_n_def
        near_tie_product_a near_tie_product_b near_tie_trend scaled_near_tie_trend)
     (simp add: double_value_def)

text \<open>
  Claim C8, amended. Let a window hold at least five prices, let the last five prices of
  a second window be the float products of those of the first with a constant, none of
  them an infinity, and let these products compare with one another as the prices of the
  first window do. Then both windows get the same trend label, one of the five labels
  other than insufficient.
\<close>

theorem trend_scale_invariant:
  assumes "5 \<le> length (items (prices a))"
    and "last_n 5 (items (prices a)) = map double_value ds"
    and "map (double_mul c) ds = map Finite rs"
    and "last_n 5 (items (prices b)) = map double_value rs"
    and "\<forall>i<5. \<forall>j<5. (double_value (rs ! i) < double_value (rs ! j))
                        = (double_value (ds ! i) < double_value (ds ! j))"
  shows "get_trend b = get_trend a \<and> get_trend a \<noteq> Insufficient"
proof -
  have la: "length (last_n 5 (items (prices a))) = 5"
    using assms(1) by (simp add: length_last_n)
  then have lds: "length ds = 5" using assms(2) by simp
  have "length (map (double_mul c) ds) = length (map Finite rs)" using assms(3) by simp
  then have lrs: "length rs = 5" using lds by simp
  then have "length (last_n 5 (items (prices b))) = 5" using assms(4) by simp
  then have lb: "5 \<le> length (items (prices b))" by (simp add: length_last_n split: if_splits)
  have "trend_of_recent (map double_value rs) = trend_of_recent (map double_value ds)"
  proof (rule trend_of_recent_order)
    show "length (map double_value rs) = length (map double_value ds)" using lds lrs by simp
    show "map double_value ds \<noteq> []" using lds by auto
    show "\<forall>i<length (map double_value ds). \<forall>j<length (map double_value ds).
            (map double_value rs ! i < map double_value rs ! j)
              = (map double_value ds ! i < map double_value ds ! j)"
      using assms(5) lds lrs by simp
  qed
  then have "get_trend b = get_trend a"
    using assms(1) lb by (simp add: get_trend_def assms(2) assms(4))
  moreover have "get_trend a \<noteq> Insufficient"
    using assms(1) by (simp add: get_trend_def trend_of_recent_label)
  ultimately show ?thesis by blast
qed

text \<open>
  Products with a positive constant that are exact compare as the prices do.
\<close>

lemma exact_products_keep_order:
  assumes "0 < double_value c"
    and "\<forall>i<n. double_value (rs ! i) = double_value c * double_value (ds ! i)"
  shows "\<forall>i<n. \<forall>j<n. (double_value (rs ! i) < double_value (rs ! j))
                        = (double_value (ds ! i) < double_value (ds ! j))"
  using assms by (simp add: mult_less_cancel_left_pos)

lemma zigzag_window_items: "items (prices zigzag_window) = [1, 3, 2, 5, 4]"
  by (simp add: zigzag_window_def default_analyzer_def init_analyzer_def deque_new_def
        add_price_def deque_append_def)

lemma doubled_zigzag_window_items: "items (prices doubled_zigzag_window) = [2, 6, 4, 10, 8]"
  by (simp add: doubled_zigzag_window_def default_analyzer_def init_analyzer_def deque_new_def
        add_price_def deque_append_def)

lemma doubling_products:
  "map (double_mul (Double 1 1)) [Double 1 0, Double 3 0, Double 2 0, Double 5 0, Double 4 0]
     = map Finite [Double 1 1, Double 3 1, Double 2 1, Double 5 1, Double 4 1]"
  by (simp add: double_mul_exact)

theorem trend_scale_invariant_witness:
  "5 \<le> length (items (prices zigzag_window))
   \<and> last_n 5 (items (prices zigzag_window))
       = map double_value [Double 1 0, Double 3 0, Double 2 0, Double 5 0, Double 4 0]
   \<and> map (double_mul (Double 1 1)) [Double 1 0, Double 3 0, Double 2 0, Double 5 0, Double 4 0]
       = map Finite [Double 1 1, Double 3 1, Double 2 1, Double 5 1, Double 4 1]
   \<and> last_n 5 (items (prices doubled_zigzag_window))
       = map double_value [Double 1 1, Double 3 1, Double 2 1, Double 5 1, Double 4 1]
   \<and> get_trend doubled_zigzag_window = get_trend zigzag_window
   \<and> get_trend zigzag_window = BullishReversal"
proof -
  let ?ds = "[Double 1 0, Double 3 0, Double 2 0, Double 5 0, Double 4 0]"
  let ?rs = "[Double 1 1, Double 3 1, Double 2 1, Double 5 1, Double 4 1]"
  have l: "5 \<le> length (items (prices zigzag_window))" by (simp add: zigzag_window_items)
  have p: "last_n 5 (items (prices zigzag_window)) = map double_value ?ds"
    by (simp add: zigzag_window_items last_n_def double_value_def)
  have q: "last_n 5 (items (prices doubled_zigzag_window)) = map double_value ?rs"
    by (simp add: doubled_zigzag_window_items last_n_def double_value_def)
  have o: "\<forall>i<5. \<forall>j<5. (double_value (?rs ! i) < double_value (?rs ! j))
                        = (double_value (?ds ! i) < double_value (?ds ! j))"
  proof (rule exact_products_keep_order)
    show "0 < double_value (Double 1 1)" by (simp add: double_value_def)
    show "\<forall>i<5. double_value (?rs ! i) = double_value (Double 1 1) * double_value (?ds ! i)"
    proof (intro allI impI)
      fix i :: nat
      assume "i < 5"
      then consider "i = 0" | "i = 1" | "i = 2" | "i = 3" | "i = 4" by linarith
      then show "double_value (?rs ! i) = double_value (Double 1 1) * double_value (?ds ! i)"
        by cases (simp_all add: double_value_def)
    qed
  qed
  have t: "get_trend zigzag_window = BullishReversal"
    by (simp add: get_trend_def zigzag_window_items last_n_def trend_of_recent_def)
  from trend_scale_invariant [OF l p doubling_products q o]
  have "get_trend doubled_zigzag_window = get_trend zigzag_window" by blast
  with l p doubling_products q t show ?thesis by blast
qed

section \<open>Indicators read the window only\<close>

lemma call_indicator_frame: "snd (call_indicator c a) = a"
  by (cases c) simp_all

lemma calculate_sma_default:
  "wf_analyzer a \<Longrightarrow>
   calculate_sma a None =
     (if items (prices a) = [] then Inl ZeroDivisionError
      else Inr (Some (sum_list (items (prices a)) / real (length (items (prices a))))))"
  by (auto simp: calculate_sma_def wf_analyzer_def last_n_def min_def Let_def)

lemma call_indicator_contents:
  assumes "wf_analyzer a" and "wf_analyzer b" and "items (prices a) = items (prices b)"
  shows "fst (call_indicator c a) = fst (call_indicator c b)"
proof (cases c)
  case (CallSMA period)
  show ?thesis
  proof (cases period)
    case None
    then show ?thesis using CallSMA assms by (simp add: calculate_sma_default)
  next
    case (Some p)
    then show ?thesis using CallSMA assms(3) by (simp add: calculate_sma_def)
  qed
next
  case (CallEMA period)
  then show ?thesis using assms(3) by (simp add: calculate_ema_def)
next
  case (CallRSI period)
  then show ?thesis using assms(3) by (simp add: calculate_rsi_def)
next
  case CallTrend
  then show ?thesis using assms(3) by (simp add: get_trend_def)
next
  case (CallSupportResistance window_size)
  then show ?thesis using assms(3) by (simp add: analyze_support_resistance_def)
next
  case (CallVolatility period)
  then show ?thesis using assms(3) by (simp add: get_volatility_def)
next
  case (CallMomentum period)
  then show ?thesis using assms(3) by (simp add: get_momentum_def)
qed

text \<open>
  Claim C9. A call of any indicator (SMA, EMA, RSI, trend, support and resistance,
  volatility, momentum) leaves the analyzer as it was; on two analyzers built by the
  constructor and \<open>add_price\<close> whose windows hold the same prices it returns the same
  result, whatever their timestamps and capacities; and calling it again returns the
  same result.
\<close>

theorem indicators_pure_and_deterministic:
  assumes "wf_analyzer a" and "wf_analyzer b" and "items (prices a) = items (prices b)"
  shows "snd (call_indicator c a) = a
     \<and> fst (call_indicator c a) = fst (call_indicator c b)
     \<and> fst (call_indicator c (snd (call_indicator c a))) = fst (call_indicator c a)"
  using call_indicator_contents [OF assms, of c] by (simp add: call_indicator_frame)

lemma rising_window_later_items:
  "items (prices rising_window_later) = [1, 2, 3, 4, 5, 6, 7, 8, 9, 10, 11, 12, 13, 14, 15]"
  by (simp add: rising_window_later_def init_analyzer_def deque_new_def
        add_price_def deque_append_def)

lemma rising_window_later_wf: "wf_analyzer rising_window_later"
  unfolding rising_window_later_def
  by (rule add_prices_wf) (rule init_analyzer_wf)

lemma rising_window_capacities:
  "lookback_period rising_window = 20" "lookback_period rising_window_later = 30"
  unfolding rising_window_def rising_window_later_def add_prices_lookback
  by (simp_all add: default_analyzer_def init_analyzer_def)

theorem indicators_pure_and_deterministic_witness:
  "wf_analyzer rising_window \<and> wf_analyzer rising_window_later
   \<and> items (prices rising_window) = items (prices rising_window_later)
   \<and> lookback_period rising_window \<noteq> lookback_period rising_window_later
   \<and> snd (call_indicator (CallSMA None) rising_window) = rising_window
   \<and> fst (call_indicator (CallSMA None) rising_window)
       = fst (call_indicator (CallSMA None) rising_window_later)"
proof -
  have e: "items (prices rising_window) = items (prices rising_window_later)"
    by (simp add: rising_window_items rising_window_later_items)
  have c: "lookback_period rising_window \<noteq> lookback_period rising_window_later"
    by (simp add: rising_window_capacities)
  from indicators_pure_and_deterministic [OF rising_window_wf rising_window_later_wf e,
      of "CallSMA None"]
  have "snd (call_indicator (CallSMA None) rising_window) = rising_window"
    and "fst (call_indicator (CallSMA None) rising_window)
       = fst (call_indicator (CallSMA None) rising_window_later)"
    by blast+
  with rising_window_wf rising_window_later_wf e c show ?thesis by blast
qed

end
